theory Spec2Isabelle
  imports Main "HOL-Library.Word"
begin

section \<open>msh: a shallow embedding of shuck.c\<close>

text \<open>
  The shell of \<^verbatim>\<open>src/shuck.c\<close> reads a line, splits it into words and executes
  the words. C strings are modelled as \<^typ>\<open>string\<close> (the bytes before the
  terminating NUL), a NULL-terminated \<^verbatim>\<open>char **\<close> as a \<^typ>\<open>string list\<close>
  (the entries before the NULL).
\<close>

subsection \<open>Constants of the source\<close>

definition DEFAULT_HISTORY_SHOWN :: int where
  "DEFAULT_HISTORY_SHOWN = 10"

definition MAX_LINE_CHARS :: nat where
  "MAX_LINE_CHARS = 1024"

definition SPECIAL_CHARS :: string where
  "SPECIAL_CHARS = ''!><|''"

definition WORD_SEPARATORS :: string where
  "WORD_SEPARATORS = [CHR '' '', CHR 0x09, CHR 0x0D, CHR 0x0A]"

subsection \<open>The tokenizer\<close>

text \<open>
  \<^verbatim>\<open>strspn(s, accept)\<close> is the length of the longest prefix of \<open>s\<close> made of bytes
  of \<open>accept\<close>, \<^verbatim>\<open>strcspn(s, reject)\<close> the length of the longest prefix with no
  byte of \<open>reject\<close>.
\<close>

definition strspn :: "string \<Rightarrow> string \<Rightarrow> nat" where
  "strspn s accept = length (takeWhile (\<lambda>c. c \<in> set accept) s)"

definition strcspn :: "string \<Rightarrow> string \<Rightarrow> nat" where
  "strcspn s reject = length (takeWhile (\<lambda>c. c \<notin> set reject) s)"

text \<open>
  One round of the loop of \<^verbatim>\<open>tokenize\<close>, after the leading separators have been
  skipped: the length of the next token.
\<close>

definition token_length :: "string \<Rightarrow> string \<Rightarrow> string \<Rightarrow> nat" where
  "token_length s separators special_chars =
     (let length0 = strcspn s separators;
          length_without_specials0 = strcspn s special_chars;
          length_without_specials =
            (if length_without_specials0 = 0 then 1 else length_without_specials0)
      in if length_without_specials < length0 then length_without_specials else length0)"

lemma token_length_pos:
  assumes "s \<noteq> []" and "hd s \<notin> set separators"
  shows "0 < token_length s separators special_chars"
proof -
  from assms obtain c cs where s: "s = c # cs" and c: "c \<notin> set separators"
    by (cases s) auto
  then have "0 < strcspn s separators"
    by (simp add: strcspn_def)
  then show ?thesis
    by (simp add: token_length_def Let_def)
qed

lemma hd_drop_strspn:
  "drop (strspn s separators) s \<noteq> [] \<Longrightarrow> hd (drop (strspn s separators) s) \<notin> set separators"
proof -
  assume ne: "drop (strspn s separators) s \<noteq> []"
  have d: "drop (strspn s separators) s = dropWhile (\<lambda>c. c \<in> set separators) s"
    by (simp add: strspn_def dropWhile_eq_drop)
  from ne d have "dropWhile (\<lambda>c. c \<in> set separators) s \<noteq> []" by simp
  then have "\<not> (hd (dropWhile (\<lambda>c. c \<in> set separators) s) \<in> set separators)"
    by (rule hd_dropWhile)
  with d show ?thesis by simp
qed

function tokenize :: "string \<Rightarrow> string \<Rightarrow> string \<Rightarrow> string list" where
  "tokenize s separators special_chars =
     (if s = [] then []
      else let s1 = drop (strspn s separators) s in
        if s1 = [] then []
        else let len = token_length s1 separators special_chars in
          take len s1 # tokenize (drop len s1) separators special_chars)"
  by pat_completeness auto
termination
proof (relation "measure (\<lambda>(s, separators, special_chars). length s)", goal_cases)
  case 1
  show ?case by simp
next
  case (2 s separators special_chars s1 len)
  then have "0 < len"
    using token_length_pos hd_drop_strspn by metis
  moreover from 2 have "s1 \<noteq> []" by simp
  moreover from 2 have "length s1 \<le> length s" by simp
  ultimately show ?case by (cases s1) auto
qed

declare tokenize.simps [simp del]

text \<open>
  The splitting the specification describes, written as one left-to-right scan:
  \<open>cur\<close> is the run of ordinary characters collected so far; a separator ends the
  run, a special character ends the run and is a token by itself.
\<close>

definition flush :: "string \<Rightarrow> string list" where
  "flush cur = (if cur = [] then [] else [cur])"

fun spec_scan :: "string \<Rightarrow> string \<Rightarrow> string \<Rightarrow> string \<Rightarrow> string list" where
  "spec_scan separators special_chars cur [] = flush cur"
| "spec_scan separators special_chars cur (c # cs) =
     (if c \<in> set separators then flush cur @ spec_scan separators special_chars [] cs
      else if c \<in> set special_chars then
        flush cur @ [c] # spec_scan separators special_chars [] cs
      else spec_scan separators special_chars (cur @ [c]) cs)"

definition spec_tokenize :: "string \<Rightarrow> string \<Rightarrow> string \<Rightarrow> string list" where
  "spec_tokenize s separators special_chars = spec_scan separators special_chars [] s"

text \<open>
  The shape of a token: not empty, without a separator, and either without a special
  character or a single character.
\<close>

definition token_shape :: "string \<Rightarrow> string \<Rightarrow> string \<Rightarrow> bool" where
  "token_shape separators special_chars t =
     (t \<noteq> [] \<and> list_all (\<lambda>c. c \<notin> set separators) t
      \<and> (list_all (\<lambda>c. c \<notin> set special_chars) t \<or> length t = 1))"

subsection \<open>The syntax validator\<close>

text \<open>
  \<^verbatim>\<open>redirection_check_arg\<close> walks over the words once. It counts the accepted
  \<open><\<close>, \<open>>\<close> and \<open>|\<close> in \<^verbatim>\<open>*input\<close>, \<^verbatim>\<open>*output\<close> and \<^verbatim>\<open>*pipe_count\<close> and the
  rejected ones in three error counters; a rejected \<open><\<close> breaks out of the loop.
\<close>

datatype syntax_error = InvalidInput | InvalidOutput | InvalidPipe

record check_state =
  cs_input :: nat
  cs_output :: nat
  cs_pipe_count :: nat
  cs_input_err :: nat
  cs_output_err :: nat
  cs_pipe_err :: nat

definition check_output :: "nat \<Rightarrow> nat \<Rightarrow> string list \<Rightarrow> check_state \<Rightarrow> check_state" where
  "check_output i count words st =
     (let st1 = (if count < 3 then st\<lparr>cs_output_err := cs_output_err st + 1\<rparr> else st) in
      if i = 0 then st1\<lparr>cs_output_err := cs_output_err st1 + 1\<rparr>
      else if int i = int count - 3 then
        (if words ! (i + 1) = ''>'' then st1\<lparr>cs_output := cs_output st1 + 1\<rparr>
         else st1\<lparr>cs_output_err := cs_output_err st1 + 1\<rparr>)
      else if int i = int count - 2 then st1\<lparr>cs_output := cs_output st1 + 1\<rparr>
      else st1\<lparr>cs_output_err := cs_output_err st1 + 1\<rparr>)"

definition check_pipe :: "nat \<Rightarrow> nat \<Rightarrow> string list \<Rightarrow> check_state \<Rightarrow> check_state" where
  "check_pipe i count words st =
     (let st1 = (if count < 3 then st\<lparr>cs_pipe_err := cs_pipe_err st + 1\<rparr> else st) in
      if i = 0 then st1\<lparr>cs_pipe_err := cs_pipe_err st1 + 1\<rparr>
      else if int i = int count - 1 then st1\<lparr>cs_pipe_err := cs_pipe_err st1 + 1\<rparr>
      else if 0 < i \<and> words ! (i - 1) = words ! i then st1\<lparr>cs_pipe_err := cs_pipe_err st1 + 1\<rparr>
      else st1\<lparr>cs_pipe_count := cs_pipe_count st1 + 1\<rparr>)"

function check_loop :: "nat \<Rightarrow> nat \<Rightarrow> string list \<Rightarrow> check_state \<Rightarrow> check_state" where
  "check_loop i count words st =
     (if i < count then
        if words ! i = ''<'' then
          if count < 3 then st\<lparr>cs_input_err := cs_input_err st + 1\<rparr>
          else if i = 0 then check_loop (i + 1) count words (st\<lparr>cs_input := cs_input st + 1\<rparr>)
          else st\<lparr>cs_input_err := cs_input_err st + 1\<rparr>
        else if words ! i = ''>'' then check_loop (i + 1) count words (check_output i count words st)
        else if words ! i = ''|'' then check_loop (i + 1) count words (check_pipe i count words st)
        else check_loop (i + 1) count words st
      else st)"
  by pat_completeness auto
termination
  by (relation "measure (\<lambda>(i, count, words, st). count - i)") auto

declare check_loop.simps [simp del]

definition check_init :: check_state where
  "check_init = \<lparr>cs_input = 0, cs_output = 0, cs_pipe_count = 0,
      cs_input_err = 0, cs_output_err = 0, cs_pipe_err = 0\<rparr>"

text \<open>
  The result: the error whose message the function prints (it returns 1), or the three
  counts (it returns 0).
\<close>

definition redirection_check_arg :: "nat \<Rightarrow> string list \<Rightarrow> syntax_error + nat \<times> nat \<times> nat" where
  "redirection_check_arg count words =
     (let st = check_loop 0 count words check_init in
      if cs_input_err st \<noteq> 0 then Inl InvalidInput
      else if cs_output_err st \<noteq> 0 then Inl InvalidOutput
      else if cs_pipe_err st \<noteq> 0 then Inl InvalidPipe
      else Inr (cs_input st, cs_output st, cs_pipe_count st))"

definition syntax_message :: "syntax_error \<Rightarrow> string" where
  "syntax_message e =
     (case e of
        InvalidInput \<Rightarrow> ''invalid input redirection'' @ [CHR 0x0A]
      | InvalidOutput \<Rightarrow> ''invalid output redirection'' @ [CHR 0x0A]
      | InvalidPipe \<Rightarrow> ''invalid pipe'' @ [CHR 0x0A])"

text \<open>
  The places where the loop accepts a token, for \<open>count\<close> words: \<open><\<close> at position 0 of
  at least three words; \<open>>\<close> second from the end, or third from the end and followed by
  another \<open>>\<close>, never at position 0; \<open>|\<close> neither first nor last nor right after
  another \<open>|\<close>. A line is misplaced in one of the three ways when it has such a token
  somewhere else.
\<close>

definition input_position_ok :: "nat \<Rightarrow> nat \<Rightarrow> bool" where
  "input_position_ok count i = (i = 0 \<and> 3 \<le> count)"

definition output_position_ok :: "nat \<Rightarrow> string list \<Rightarrow> nat \<Rightarrow> bool" where
  "output_position_ok count words i =
     (3 \<le> count \<and> 0 < i \<and> (i + 2 = count \<or> (i + 3 = count \<and> words ! (i + 1) = ''>'')))"

definition pipe_position_ok :: "nat \<Rightarrow> string list \<Rightarrow> nat \<Rightarrow> bool" where
  "pipe_position_ok count words i = (0 < i \<and> i + 1 < count \<and> words ! (i - 1) \<noteq> ''|'')"

definition misplaced_input :: "nat \<Rightarrow> string list \<Rightarrow> bool" where
  "misplaced_input count words =
     list_ex (\<lambda>i. words ! i = ''<'' \<and> \<not> input_position_ok count i) [0 ..< count]"

definition misplaced_output :: "nat \<Rightarrow> string list \<Rightarrow> bool" where
  "misplaced_output count words =
     list_ex (\<lambda>i. words ! i = ''>'' \<and> \<not> output_position_ok count words i) [0 ..< count]"

definition misplaced_pipe :: "nat \<Rightarrow> string list \<Rightarrow> bool" where
  "misplaced_pipe count words =
     list_ex (\<lambda>i. words ! i = ''|'' \<and> \<not> pipe_position_ok count words i) [0 ..< count]"

subsection \<open>The world outside the shell\<close>

text \<open>
  What the shell does to the world is recorded as a list of events, in order. What the
  world answers (the file system, \<^verbatim>\<open>glob\<close>, the children) is read from a record
  of oracles, fixed while one line is executed.
\<close>

datatype open_flag = O_RDONLY | O_WRONLY | O_CREAT | O_APPEND | O_TRUNC

text \<open>\<^verbatim>\<open>pipe_file_descriptors[2 * k]\<close> is \<open>ReadEnd k\<close>, \<^verbatim>\<open>[2 * k + 1]\<close> is \<open>WriteEnd k\<close>.\<close>

datatype pipe_end = ReadEnd nat | WriteEnd nat

datatype file_action =
    AddOpen nat string "open_flag list" nat
  | AddDup2 pipe_end nat

datatype event =
    Stdout string
  | Stderr string
  | Perror string
  | Spawn string "file_action list" "string list"
  | Chdir "string option"
  | ClosePipe pipe_end

datatype child_result = SpawnFails | WaitFails | Exited nat | NotExited

record os =
  getenv_HOME :: "string option"
  getenv_PATH :: "string option"
  history_append_ok :: bool
  is_executable :: "string \<Rightarrow> bool"
  stat_mode :: "string \<Rightarrow> (bool \<times> bool) option"
  glob :: "string \<Rightarrow> string list"
  child :: "string \<Rightarrow> file_action list \<Rightarrow> string list \<Rightarrow> child_result"
  chdir_ok :: "string \<Rightarrow> bool"
  getcwd :: "string option"
  pipe_ok :: "nat \<Rightarrow> bool"

text \<open>
  \<open>is_executable\<close> is the source's function of that name (\<^verbatim>\<open>stat\<close>, \<^verbatim>\<open>S_ISREG\<close>
  and \<^verbatim>\<open>faccessat\<close> with \<^verbatim>\<open>X_OK\<close>): the file exists, is regular and may be executed.
  \<open>stat_mode p\<close> is \<open>None\<close> when \<^verbatim>\<open>stat(p)\<close> fails, else the bits \<^verbatim>\<open>S_IRUSR\<close> and
  \<^verbatim>\<open>S_IWUSR\<close> of the mode. \<open>glob p\<close> is what \<^verbatim>\<open>glob(p, GLOB_NOCHECK | GLOB_TILDE)\<close>
  adds to \<^verbatim>\<open>gl_pathv\<close>. \<open>child\<close> tells how \<^verbatim>\<open>posix_spawn\<close> and \<^verbatim>\<open>waitpid\<close> end.

  The process ends by \<^verbatim>\<open>exit\<close>, by a failed \<^verbatim>\<open>assert\<close>, or leaves defined behaviour
  (a NULL or out-of-bounds access, an overflowing buffer, an uninitialised value, a
  read through a pointer to an array that is gone).
\<close>

datatype halt = Exit int | Abort | Undefined

record shell =
  hist_file :: "string option"
  events :: "event list"
  halted :: "halt option"

definition emit :: "event list \<Rightarrow> shell \<Rightarrow> shell" where
  "emit es sh = sh\<lparr>events := events sh @ es\<rparr>"

definition halt_with :: "halt \<Rightarrow> shell \<Rightarrow> shell" where
  "halt_with h sh = sh\<lparr>halted := Some h\<rparr>"

text \<open>
  The result of a helper that may fail: a value, the diagnostics it has printed before
  giving up, or undefined behaviour.
\<close>

datatype 'a res = Ok 'a | Fail "event list" | Undef

definition newline :: string where
  "newline = [CHR 0x0A]"

text \<open>\<^verbatim>\<open>words[i]\<close> where the code uses it as a string: \<open>None\<close> at the NULL and beyond.\<close>

definition word_at :: "string list \<Rightarrow> nat \<Rightarrow> string option" where
  "word_at words i = (if i < length words then Some (words ! i) else None)"

text \<open>\<^verbatim>\<open>printf("%d", n)\<close> for \<open>n \<ge> 0\<close>.\<close>

fun decimal :: "nat \<Rightarrow> string" where
  "decimal n = (if n < 10 then [char_of (48 + n)] else decimal (n div 10) @ [char_of (48 + n mod 10)])"

declare decimal.simps [simp del]

definition isdigit :: "char \<Rightarrow> bool" where
  "isdigit c = (48 \<le> (of_char c :: nat) \<and> (of_char c :: nat) \<le> 57)"

definition digits_value :: "string \<Rightarrow> int" where
  "digits_value s = foldl (\<lambda>a c. 10 * a + (int (of_char c) - 48)) 0 s"

definition INT_MAX :: int where
  "INT_MAX = 2147483647"

text \<open>
  \<^verbatim>\<open>atoi\<close>, which the shell calls on strings of decimal digits only; a value that
  does not fit an \<^verbatim>\<open>int\<close> is undefined.
\<close>

definition atoi :: "string \<Rightarrow> int option" where
  "atoi s = (if digits_value s \<le> INT_MAX then Some (digits_value s) else None)"

subsection \<open>The history file\<close>

text \<open>
  The file \<^verbatim>\<open>$HOME/.msh_history\<close> is the string of its bytes, \<open>None\<close> when there is no
  such file (opening it for reading fails then, opening it for appending creates it).
  \<^verbatim>\<open>fgets(buf, n, fp)\<close> takes at most \<open>n - 1\<close> bytes and stops after a newline; it
  returns NULL at the end of the file.
\<close>

definition fgets :: "nat \<Rightarrow> string \<Rightarrow> (string \<times> string) option" where
  "fgets n stream =
     (if stream = [] then None
      else let k = strcspn stream newline;
               line_len = (if k < length stream then k + 1 else k);
               len = min (n - 1) line_len
           in Some (take len stream, drop len stream))"

lemma fgets_shorter:
  assumes "fgets MAX_LINE_CHARS stream = Some (line, rest)"
  shows "length rest < length stream"
proof -
  from assms have ne: "stream \<noteq> []"
    by (auto simp: fgets_def split: if_splits)
  have kle: "strcspn stream newline \<le> length stream"
    by (simp add: strcspn_def length_takeWhile_le)
  obtain len where rest: "rest = drop len stream" and pos: "0 < len"
  proof (cases "strcspn stream newline < length stream")
    case True
    with assms ne
    have "rest = drop (min (MAX_LINE_CHARS - 1) (strcspn stream newline + 1)) stream"
      by (auto simp: fgets_def Let_def)
    moreover have "0 < min (MAX_LINE_CHARS - 1) (strcspn stream newline + 1)"
      by (simp add: MAX_LINE_CHARS_def)
    ultimately show ?thesis using that by blast
  next
    case False
    with kle ne have k: "0 < strcspn stream newline" by simp
    from False assms ne
    have "rest = drop (min (MAX_LINE_CHARS - 1) (strcspn stream newline)) stream"
      by (auto simp: fgets_def Let_def)
    moreover from k have "0 < min (MAX_LINE_CHARS - 1) (strcspn stream newline)"
      by (simp add: MAX_LINE_CHARS_def)
    ultimately show ?thesis using that by blast
  qed
  with ne show ?thesis by (cases stream) auto
qed

text \<open>The loop \<^verbatim>\<open>while (fgets(data[i], MAX_LINE_CHARS, fp) != NULL) i++\<close>: the rows of \<open>data\<close>.\<close>

function read_history :: "string \<Rightarrow> string list" where
  "read_history stream =
     (case fgets MAX_LINE_CHARS stream of
        None \<Rightarrow> []
      | Some (line, rest) \<Rightarrow> line # read_history rest)"
  by pat_completeness auto
termination
  by (relation "measure length") (auto dest: fgets_shorter)

declare read_history.simps [simp del]

text \<open>\<^verbatim>\<open>char data[1000][MAX_LINE_CHARS]\<close>: a file of more rows overflows the array.\<close>

definition HISTORY_ROWS :: nat where
  "HISTORY_ROWS = 1000"

text \<open>
  \<^verbatim>\<open>strcpy(path, getenv("HOME")); strcat(path, "/.msh_history")\<close> into a buffer of
  \<open>MAX_LINE_CHARS\<close> bytes: \<open>None\<close> when \<^verbatim>\<open>HOME\<close> is unset or too long.
\<close>

definition history_path :: "os \<Rightarrow> string option" where
  "history_path w =
     (case getenv_HOME w of
        None \<Rightarrow> None
      | Some home \<Rightarrow>
          if length (home @ ''/.msh_history'') < MAX_LINE_CHARS then Some (home @ ''/.msh_history'')
          else None)"

text \<open>The words joined by single spaces, as the loop of \<^verbatim>\<open>store_command\<close> writes them.\<close>

fun join_words :: "string list \<Rightarrow> string" where
  "join_words [] = []"
| "join_words [w] = w"
| "join_words (w # v # ws) = w @ '' '' @ join_words (v # ws)"

definition store_command :: "os \<Rightarrow> string list \<Rightarrow> shell \<Rightarrow> shell" where
  "store_command w words sh =
     (case history_path w of
        None \<Rightarrow> halt_with Undefined sh
      | Some path \<Rightarrow>
          if \<not> history_append_ok w then emit [Perror ''msh_history''] sh
          else sh\<lparr>hist_file :=
                 Some ((case hist_file sh of None \<Rightarrow> [] | Some old \<Rightarrow> old) @ join_words words @ newline)\<rparr>)"

text \<open>
  \<^verbatim>\<open>load_command\<close> returns \<^verbatim>\<open>data[max_history]\<close> or \<^verbatim>\<open>data[command_num]\<close>: a pointer
  to a row of its own array \<open>data\<close>, which is gone when the function has returned. The
  result \<open>Ok k\<close> is that pointer, the address of row \<open>k\<close>; it is not the text of the row.
\<close>

definition load_command :: "os \<Rightarrow> shell \<Rightarrow> int \<Rightarrow> nat res" where
  "load_command w sh command_num =
     (case history_path w of
        None \<Rightarrow> Undef
      | Some path \<Rightarrow>
          (case hist_file sh of
             None \<Rightarrow> Fail [Perror ''msh_history'']
           | Some stream \<Rightarrow>
               let data = read_history stream; i = int (length data) in
               if HISTORY_ROWS < length data then Undef
               else let max_history = i - 1 in
                 if command_num = - 1 then
                   (if 0 \<le> max_history then Ok (nat max_history) else Undef)
                 else if command_num > max_history then
                   Fail [Stderr (''!: invalid history reference'' @ newline)]
                 else if 0 \<le> command_num then Ok (nat command_num)
                 else Undef))"

definition history_line :: "nat \<Rightarrow> string \<Rightarrow> event" where
  "history_line j row = Stdout (decimal j @ '': '' @ row)"

definition print_history :: "os \<Rightarrow> int \<Rightarrow> shell \<Rightarrow> shell" where
  "print_history w num sh =
     (case history_path w of
        None \<Rightarrow> halt_with Undefined sh
      | Some path \<Rightarrow>
          (case hist_file sh of
             None \<Rightarrow> emit [Perror ''msh_history''] sh
           | Some stream \<Rightarrow>
               let data = read_history stream; i = int (length data) in
               if HISTORY_ROWS < length data then halt_with Undefined sh
               else let starting_point = (if i - 1 - num < 0 then 0 else i - 1 - num) in
                 emit (map (\<lambda>j. history_line j (data ! j)) [nat starting_point ..< nat (i - 1)]) sh))"

text \<open>
  The argument checks of \<^verbatim>\<open>history\<close> and \<^verbatim>\<open>!\<close>: the number to use (the caller's
  default when there is no argument), or the message printed.
\<close>

definition history_check_arg :: "int \<Rightarrow> nat \<Rightarrow> string list \<Rightarrow> int res" where
  "history_check_arg print_num count words =
     (if 2 < count then Fail [Stderr (''history: too many arguments'' @ newline)]
      else if count = 2 then
        (case word_at words 1 of
           None \<Rightarrow> Undef
         | Some arg \<Rightarrow>
             if list_all isdigit arg then (case atoi arg of None \<Rightarrow> Undef | Some n \<Rightarrow> Ok n)
             else Fail [Stderr (''history: '' @ arg @ '': numeric argument required'' @ newline)])
      else Ok print_num)"

definition exclamation_check_arg :: "int \<Rightarrow> nat \<Rightarrow> string list \<Rightarrow> int res" where
  "exclamation_check_arg num count words =
     (if 2 < count then Fail [Stderr (''!: too many arguments'' @ newline)]
      else if count = 2 then
        (case word_at words 1 of
           None \<Rightarrow> Undef
         | Some arg \<Rightarrow>
             if list_all isdigit arg then (case atoi arg of None \<Rightarrow> Undef | Some n \<Rightarrow> Ok n)
             else Fail [Stderr (''!: '' @ arg @ '': numeric argument required'' @ newline)])
      else Ok num)"

subsection \<open>The builtins\<close>

definition isspace :: "char \<Rightarrow> bool" where
  "isspace c = ((of_char c :: nat) = 32 \<or> (9 \<le> (of_char c :: nat) \<and> (of_char c :: nat) \<le> 13))"

definition LONG_MAX :: int where
  "LONG_MAX = 9223372036854775807"

definition LONG_MIN :: int where
  "LONG_MIN = - 9223372036854775808"

text \<open>
  \<^verbatim>\<open>strtol(s, &endptr, 10)\<close>: the value, clamped to a \<^verbatim>\<open>long\<close> of 64 bits, and what
  \<^verbatim>\<open>endptr\<close> points at. With no digits the value is 0 and \<^verbatim>\<open>endptr\<close> is \<open>s\<close>.
\<close>

definition strtol :: "string \<Rightarrow> int \<times> string" where
  "strtol s =
     (let s1 = dropWhile isspace s;
          neg = (s1 \<noteq> [] \<and> hd s1 = CHR ''-'');
          s2 = (if s1 \<noteq> [] \<and> (hd s1 = CHR ''-'' \<or> hd s1 = CHR ''+'') then tl s1 else s1);
          ds = takeWhile isdigit s2
      in if ds = [] then (0, s)
         else let v = (if neg then - digits_value ds else digits_value ds)
              in (max LONG_MIN (min LONG_MAX v), dropWhile isdigit s2))"

text \<open>The cast \<^verbatim>\<open>(int)\<close> of a \<^verbatim>\<open>long\<close> keeps the low 32 bits.\<close>

definition int_of_long :: "int \<Rightarrow> int" where
  "int_of_long v = sint (word_of_int v :: 32 word)"

text \<open>\<^verbatim>\<open>do_exit\<close> ends in \<^verbatim>\<open>exit(exit_status)\<close> on every path.\<close>

definition do_exit :: "string list \<Rightarrow> shell \<Rightarrow> shell" where
  "do_exit words sh =
     (if word_at words 0 \<noteq> Some ''exit'' then halt_with Abort sh
      else
        (case word_at words 1 of
           None \<Rightarrow> halt_with (Exit 0) sh
         | Some arg \<Rightarrow>
             (case word_at words 2 of
                Some arg2 \<Rightarrow>
                  halt_with (Exit 0) (emit [Stderr (''exit: too many arguments'' @ newline)] sh)
              | None \<Rightarrow>
                  (let (v, endptr) = strtol arg; exit_status = int_of_long v in
                   halt_with (Exit exit_status)
                     (if endptr \<noteq> [] then
                        emit [Stderr (''exit: '' @ arg @ '': numeric argument required'' @ newline)] sh
                      else sh)))))"

text \<open>When \<^verbatim>\<open>getcwd\<close> fails, \<^verbatim>\<open>pwd\<close> goes on to print the buffer it never filled.\<close>

definition pwd :: "os \<Rightarrow> shell \<Rightarrow> shell" where
  "pwd w sh =
     (case getcwd w of
        None \<Rightarrow> halt_with Undefined (emit [Perror ''getcwd''] sh)
      | Some cwd \<Rightarrow>
          if MAX_LINE_CHARS \<le> length cwd then halt_with Undefined (emit [Perror ''getcwd''] sh)
          else emit [Stdout (''current directory is '' @ [CHR 0x27] @ cwd @ [CHR 0x27] @ newline)] sh)"

definition cd :: "os \<Rightarrow> string list \<Rightarrow> shell \<Rightarrow> shell" where
  "cd w words sh =
     (case word_at words 1 of
        None \<Rightarrow> emit [Chdir (getenv_HOME w)] sh
      | Some dir \<Rightarrow>
          if chdir_ok w dir then emit [Chdir (Some dir)] sh
          else emit [Chdir (Some dir),
                 Stderr (''cd: '' @ dir @ '': No such file or directory'' @ newline)] sh)"

subsection \<open>Filename expansion\<close>

definition is_glob_char :: "char \<Rightarrow> bool" where
  "is_glob_char c = (c = CHR ''*'' \<or> c = CHR ''?'' \<or> c = CHR ''['' \<or> c = CHR ''~'')"

text \<open>The array \<^verbatim>\<open>word_num\<close>: the indices of the words that have one of the four characters.\<close>

definition glob_word_num :: "string list \<Rightarrow> nat list" where
  "glob_word_num words = filter (\<lambda>i. list_ex is_glob_char (words ! i)) [0 ..< length words]"

text \<open>
  \<^verbatim>\<open>check_glob\<close> returns NULL (\<open>Ok None\<close>) when no word is flagged. Else it calls
  \<^verbatim>\<open>glob\<close> for \<^verbatim>\<open>words[word_num[i]]\<close> as long as \<^verbatim>\<open>word_num[i]\<close> is not 0, and returns
  \<^verbatim>\<open>words[0]\<close>, a space, the paths of \<^verbatim>\<open>gl_pathv\<close> with single spaces between them,
  and a newline. The array \<^verbatim>\<open>word_num\<close> has 100 entries, zero at first; when
  \<^verbatim>\<open>words[0]\<close> is flagged the loop does not run and \<^verbatim>\<open>matches\<close> is never filled.
  The buffer returned is the function's own array \<^verbatim>\<open>new\<close>; the model returns its
  content as it stands when the function returns.
\<close>

definition check_glob :: "os \<Rightarrow> string list \<Rightarrow> string option res" where
  "check_glob w words =
     (let word_num = glob_word_num words; symbol_count = length word_num in
      if symbol_count = 0 then Ok None
      else if 100 \<le> symbol_count then Undef
      else if hd word_num = 0 then Undef
      else let gl_pathv = concat (map (\<lambda>i. glob w (words ! i)) word_num);
               new = words ! 0 @ '' '' @ join_words gl_pathv @ newline
           in if MAX_LINE_CHARS \<le> length new then Undef else Ok (Some new))"

subsection \<open>Finding and running programs\<close>

text \<open>
  The loop over \<^verbatim>\<open>path\<close>, which \<^verbatim>\<open>execute_command\<close> and \<^verbatim>\<open>get_programs\<close> both have:
  the first \<^verbatim>\<open>path[i] + "/" + program\<close> that \<open>is_executable\<close> accepts. The name is
  built in a buffer of \<open>MAX_LINE_CHARS\<close> bytes.
\<close>

fun search_path :: "os \<Rightarrow> string list \<Rightarrow> string \<Rightarrow> string option res" where
  "search_path w [] exe = Ok None"
| "search_path w (dir # path) exe =
     (let pathname = dir @ ''/'' @ exe in
      if MAX_LINE_CHARS \<le> length pathname then Undef
      else if is_executable w pathname then Ok (Some pathname)
      else search_path w path exe)"

text \<open>
  Lines 295 to 309 of \<^verbatim>\<open>execute_command\<close>: the value of \<^verbatim>\<open>program\<close> after the search.
  A name with a \<open>/\<close> is kept; a name without one is replaced by the first hit and
  kept when there is none.
\<close>

definition resolve :: "os \<Rightarrow> string list \<Rightarrow> string \<Rightarrow> string res" where
  "resolve w path program =
     (if CHR ''/'' \<notin> set program then
        (case search_path w path program of
           Undef \<Rightarrow> Undef
         | Fail es \<Rightarrow> Fail es
         | Ok None \<Rightarrow> Ok program
         | Ok (Some pathname) \<Rightarrow> Ok pathname)
      else Ok program)"

definition exit_status_line :: "string \<Rightarrow> nat \<Rightarrow> event" where
  "exit_status_line pathname code = Stdout (pathname @ '' exit status = '' @ decimal code @ newline)"

text \<open>
  \<^verbatim>\<open>run_program\<close> does not return after a failed \<^verbatim>\<open>posix_spawn\<close> or \<^verbatim>\<open>waitpid\<close>: it
  goes on with a \<^verbatim>\<open>pid\<close> or an \<^verbatim>\<open>exit_status\<close> that was never set.
\<close>

definition run_program :: "os \<Rightarrow> string \<Rightarrow> string list \<Rightarrow> shell \<Rightarrow> shell" where
  "run_program w pathname words sh =
     (let sh1 = emit [Spawn pathname [] words] sh in
      case child w pathname [] words of
        SpawnFails \<Rightarrow> halt_with Undefined (emit [Perror ''spawn''] sh1)
      | WaitFails \<Rightarrow> halt_with Undefined (emit [Perror ''waitpid''] sh1)
      | Exited code \<Rightarrow> emit [exit_status_line pathname code] sh1
      | NotExited \<Rightarrow> sh1)"

subsection \<open>Redirection\<close>

text \<open>
  The two checks at the head of \<^verbatim>\<open>in_out_redirection\<close> and of \<^verbatim>\<open>pipes\<close>: the input
  file \<^verbatim>\<open>words[1]\<close> must exist and be readable, the output file \<^verbatim>\<open>words[max - 1]\<close>
  must be writable when it exists.
\<close>

definition check_input_file :: "os \<Rightarrow> nat \<Rightarrow> string list \<Rightarrow> unit res" where
  "check_input_file w input words =
     (if input = 0 then Ok ()
      else case word_at words 1 of
          None \<Rightarrow> Undef
        | Some file \<Rightarrow>
            (case stat_mode w file of
               None \<Rightarrow> Fail [Perror file]
             | Some (readable, writable) \<Rightarrow>
                 if \<not> readable then Fail [Stderr (file @ '': Permission denied'' @ newline)]
                 else Ok ()))"

definition check_output_file :: "os \<Rightarrow> nat \<Rightarrow> nat \<Rightarrow> string list \<Rightarrow> unit res" where
  "check_output_file w max_n output words =
     (if output = 0 then Ok ()
      else if max_n = 0 then Undef
      else case word_at words (max_n - 1) of
          None \<Rightarrow> Undef
        | Some file \<Rightarrow>
            (case stat_mode w file of
               None \<Rightarrow> Ok ()
             | Some (readable, writable) \<Rightarrow>
                 if \<not> writable then Fail [Stderr (file @ '': Permission denied'' @ newline)]
                 else Ok ()))"

text \<open>The file actions: \<^verbatim>\<open>posix_spawn_file_actions_addopen\<close> with the flags of the source.\<close>

definition mode_0644 :: nat where
  "mode_0644 = 6 * 64 + 4 * 8 + 4"

definition input_actions :: "nat \<Rightarrow> string list \<Rightarrow> file_action list" where
  "input_actions input words =
     (if input \<noteq> 0 then [AddOpen 0 (words ! 1) [O_RDONLY] mode_0644] else [])"

definition output_actions :: "nat \<Rightarrow> nat \<Rightarrow> string list \<Rightarrow> file_action list" where
  "output_actions max_n output words =
     (if output = 1 then [AddOpen 1 (words ! (max_n - 1)) [O_CREAT, O_WRONLY] mode_0644]
      else if output = 2 then [AddOpen 1 (words ! (max_n - 1)) [O_CREAT, O_WRONLY, O_APPEND] mode_0644]
      else [])"

text \<open>
  The argument vector of the child: the words before the first \<open>>\<close>, from
  \<^verbatim>\<open>words[2]\<close> on when there is an input file. The loops that look for \<open>>\<close> do not
  stop at the NULL, and the vector has room for \<open>max\<close> pointers only.
\<close>

definition redirect_arguments :: "nat \<Rightarrow> nat \<Rightarrow> nat \<Rightarrow> string list \<Rightarrow> string list res" where
  "redirect_arguments max_n input output words =
     (let found =
        (if input = 0 then
           (if ''>'' \<in> set words then Ok (takeWhile (\<lambda>word. word \<noteq> ''>'') words) else Undef)
         else if output = 0 then
           (if length words < 2 then Undef else Ok (drop 2 words))
         else
           (if ''>'' \<in> set (drop 2 words)
            then Ok (takeWhile (\<lambda>word. word \<noteq> ''>'') (drop 2 words)) else Undef))
      in case found of
           Ok arguments \<Rightarrow> if length arguments < max_n then Ok arguments else Undef
         | other \<Rightarrow> other)"

definition in_out_redirection ::
  "os \<Rightarrow> nat \<Rightarrow> string \<Rightarrow> nat \<Rightarrow> nat \<Rightarrow> string list \<Rightarrow> shell \<Rightarrow> shell" where
  "in_out_redirection w max_n program input output words sh =
     (case check_input_file w input words of
        Undef \<Rightarrow> halt_with Undefined sh
      | Fail es \<Rightarrow> emit es sh
      | Ok u \<Rightarrow>
     (case check_output_file w max_n output words of
        Undef \<Rightarrow> halt_with Undefined sh
      | Fail es \<Rightarrow> emit es sh
      | Ok u \<Rightarrow>
     (let actions = input_actions input words @ output_actions max_n output words in
      case redirect_arguments max_n input output words of
        Undef \<Rightarrow> halt_with Undefined sh
      | Fail es \<Rightarrow> emit es sh
      | Ok arguments \<Rightarrow>
          (let sh1 = emit [Spawn program actions arguments] sh in
           case child w program actions arguments of
             SpawnFails \<Rightarrow> emit [Perror ''spawn''] sh1
           | WaitFails \<Rightarrow> emit [Perror ''waitpid''] sh1
           | Exited code \<Rightarrow> emit [exit_status_line program code] sh1
           | NotExited \<Rightarrow> sh1))))"

subsection \<open>Pipelines\<close>

definition is_builtin_stage :: "string \<Rightarrow> bool" where
  "is_builtin_stage word =
     (word = ''pwd'' \<or> word = ''cd'' \<or> word = ''history'' \<or> word = ''!'')"

definition builtin_redirection_message :: "string \<Rightarrow> event" where
  "builtin_redirection_message program =
     Stderr (program @ '': I/O redirection not permitted for builtin commands'' @ newline)"

definition command_not_found :: "string \<Rightarrow> event" where
  "command_not_found program = Stderr (program @ '': command not found'' @ newline)"

text \<open>
  The loop of \<^verbatim>\<open>get_programs\<close>: \<open>i\<close> walks over the words up to \<open>max\<close>, \<open>new\<close> tells
  that the next word names a program. \<open>Fail\<close> is the NULL the function returns after
  it has printed a message.
\<close>

function get_programs_loop ::
  "os \<Rightarrow> string list \<Rightarrow> nat \<Rightarrow> string list \<Rightarrow> nat \<Rightarrow> bool \<Rightarrow> string list \<Rightarrow> string list res" where
  "get_programs_loop w path max_n words i new programs =
     (if i < max_n then
        (case word_at words i of
           None \<Rightarrow> Undef
         | Some word \<Rightarrow>
             if word = ''>'' then Ok programs
             else if word = ''|'' then get_programs_loop w path max_n words (i + 1) True programs
             else if new then
               (if MAX_LINE_CHARS \<le> length word then Undef
                else if is_builtin_stage word then Fail [builtin_redirection_message word]
                else if CHR ''/'' \<notin> set word then
                  (case search_path w path word of
                     Undef \<Rightarrow> Undef
                   | Fail es \<Rightarrow> Fail es
                   | Ok None \<Rightarrow> Fail [command_not_found word]
                   | Ok (Some pathname) \<Rightarrow>
                       get_programs_loop w path max_n words (i + 1) False (programs @ [pathname]))
                else get_programs_loop w path max_n words (i + 1) False (programs @ [word]))
             else get_programs_loop w path max_n words (i + 1) False programs)
      else Ok programs)"
  by pat_completeness auto
termination
  by (relation "measure (\<lambda>(w, path, max_n, words, i, new, programs). max_n - i)") auto

declare get_programs_loop.simps [simp del]

definition get_programs ::
  "os \<Rightarrow> nat \<Rightarrow> string list \<Rightarrow> nat \<Rightarrow> nat \<Rightarrow> string list \<Rightarrow> string list res" where
  "get_programs w max_n words input output path =
     get_programs_loop w path max_n words (if input \<noteq> 0 then 2 else 0) True []"

text \<open>
  \<^verbatim>\<open>get_arguments\<close>: the first loop passes \<open>program_num\<close> pipe symbols and does not look
  at \<open>max\<close>; the second collects the words up to the next \<open>|\<close> or \<open>>\<close>.
\<close>

function skip_programs :: "string list \<Rightarrow> nat \<Rightarrow> nat \<Rightarrow> nat \<Rightarrow> nat option" where
  "skip_programs words i num program_num =
     (if num < program_num then
        (case word_at words i of
           None \<Rightarrow> None
         | Some word \<Rightarrow>
             skip_programs words (i + 1) (if word = ''|'' then num + 1 else num) program_num)
      else Some i)"
  by pat_completeness auto
termination
  by (relation "measure (\<lambda>(words, i, num, program_num). length words - i)")
    (auto simp: word_at_def split: if_splits)

declare skip_programs.simps [simp del]

function collect_arguments :: "nat \<Rightarrow> string list \<Rightarrow> nat \<Rightarrow> string list \<Rightarrow> string list res" where
  "collect_arguments max_n words i arguments =
     (if i < max_n then
        (case word_at words i of
           None \<Rightarrow> Undef
         | Some word \<Rightarrow>
             if word = ''|'' then Ok arguments
             else if word = ''>'' then Ok arguments
             else collect_arguments max_n words (i + 1) (arguments @ [word]))
      else Ok arguments)"
  by pat_completeness auto
termination
  by (relation "measure (\<lambda>(max_n, words, i, arguments). max_n - i)") auto

declare collect_arguments.simps [simp del]

definition get_arguments ::
  "nat \<Rightarrow> string list \<Rightarrow> nat \<Rightarrow> nat \<Rightarrow> nat \<Rightarrow> string list res" where
  "get_arguments max_n words input output program_num =
     (case skip_programs words (if input \<noteq> 0 then 2 else 0) 0 program_num of
        None \<Rightarrow> Undef
      | Some i \<Rightarrow>
          (case collect_arguments max_n words i [] of
             Ok arguments \<Rightarrow> if length arguments < max_n then Ok arguments else Undef
           | other \<Rightarrow> other))"

text \<open>
  The file actions of stage \<open>i\<close> of a pipeline of \<open>pipe_count + 1\<close> programs. The source
  counts \<^verbatim>\<open>program\<close> down from \<open>pipe_count + 1\<close> and \<^verbatim>\<open>current_pipe\<close> up in steps of 2.
\<close>

definition stage_actions ::
  "nat \<Rightarrow> nat \<Rightarrow> nat \<Rightarrow> nat \<Rightarrow> string list \<Rightarrow> nat \<Rightarrow> file_action list" where
  "stage_actions max_n input output pipe_count words i =
     (if i = 0 then input_actions input words @ [AddDup2 (WriteEnd 0) 1]
      else if i = pipe_count then [AddDup2 (ReadEnd (i - 1)) 0] @ output_actions max_n output words
      else [AddDup2 (ReadEnd (i - 1)) 0, AddDup2 (WriteEnd i) 1])"

function pipes_loop ::
  "os \<Rightarrow> nat \<Rightarrow> string list \<Rightarrow> nat \<Rightarrow> nat \<Rightarrow> nat \<Rightarrow> string list \<Rightarrow> nat \<Rightarrow> shell \<Rightarrow> shell" where
  "pipes_loop w max_n programs input output pipe_count words i sh =
     (if i < pipe_count + 1 then
        (case get_arguments max_n words input output i of
           Undef \<Rightarrow> halt_with Undefined sh
         | Fail es \<Rightarrow> emit es sh
         | Ok arguments \<Rightarrow>
             (case word_at programs i of
                None \<Rightarrow> halt_with Undefined sh
              | Some prog \<Rightarrow>
                  (let actions = stage_actions max_n input output pipe_count words i;
                       last_program = (i \<noteq> 0 \<and> i = pipe_count);
                       sh1 = emit [Spawn prog actions arguments] sh;
                       closed = (if last_program then [] else [ClosePipe (WriteEnd i)])
                   in case child w prog actions arguments of
                        SpawnFails \<Rightarrow> emit [Perror ''spawn''] sh1
                      | WaitFails \<Rightarrow> emit (closed @ [Perror ''waitpid'']) sh1
                      | Exited code \<Rightarrow>
                          pipes_loop w max_n programs input output pipe_count words (i + 1)
                            (emit (closed @ (if last_program then [exit_status_line prog code] else [])) sh1)
                      | NotExited \<Rightarrow>
                          pipes_loop w max_n programs input output pipe_count words (i + 1)
                            (emit closed sh1))))
      else sh)"
  by pat_completeness auto
termination
  by (relation "measure (\<lambda>(w, max_n, programs, input, output, pipe_count, words, i, sh).
        pipe_count + 1 - i)") auto

declare pipes_loop.simps [simp del]

definition pipes ::
  "os \<Rightarrow> nat \<Rightarrow> string list \<Rightarrow> nat \<Rightarrow> nat \<Rightarrow> nat \<Rightarrow> string list \<Rightarrow> shell \<Rightarrow> shell" where
  "pipes w max_n programs input output pipe_count words sh =
     (case check_input_file w input words of
        Undef \<Rightarrow> halt_with Undefined sh
      | Fail es \<Rightarrow> emit es sh
      | Ok u \<Rightarrow>
     (case check_output_file w max_n output words of
        Undef \<Rightarrow> halt_with Undefined sh
      | Fail es \<Rightarrow> emit es sh
      | Ok u \<Rightarrow>
          if \<not> list_all (pipe_ok w) [0 ..< pipe_count] then emit [Perror ''pipe''] sh
          else pipes_loop w max_n programs input output pipe_count words 0 sh))"

subsection \<open>Executing one line\<close>

definition is_redirected :: "nat \<Rightarrow> nat \<Rightarrow> nat \<Rightarrow> bool" where
  "is_redirected input_r output_r pipe_count = (0 < input_r \<or> 0 < output_r \<or> 0 < pipe_count)"

text \<open>Lines 294 to 335 of \<^verbatim>\<open>execute_command\<close>: find the program and run it.\<close>

definition run_external ::
  "os \<Rightarrow> string list \<Rightarrow> string list \<Rightarrow> string \<Rightarrow> nat \<Rightarrow> nat \<Rightarrow> nat \<Rightarrow> nat \<Rightarrow> shell \<Rightarrow> shell" where
  "run_external w path words program number_arguments input_r output_r pipe_count sh =
     (case resolve w path program of
        Undef \<Rightarrow> halt_with Undefined sh
      | Fail es \<Rightarrow> emit es sh
      | Ok program1 \<Rightarrow>
          if is_executable w program1 then
            (if pipe_count = 0 then
               (if input_r = 0 \<and> output_r = 0 then run_program w program1 words sh
                else in_out_redirection w number_arguments program1 input_r output_r words sh)
             else
               (case get_programs w number_arguments words input_r output_r path of
                  Undef \<Rightarrow> halt_with Undefined sh
                | Fail es \<Rightarrow> emit es sh
                | Ok programs \<Rightarrow>
                    pipes w number_arguments programs input_r output_r pipe_count words sh))
          else emit [command_not_found program1] sh)"

text \<open>
  Lines 218 to 335 of \<^verbatim>\<open>execute_command\<close>, from \<^verbatim>\<open>store_command\<close> on. After
  \<^verbatim>\<open>check_glob\<close> the words are the new ones, while \<open>program\<close>, \<open>number_arguments\<close> and
  the three counts stay as they were.
\<close>

definition execute_stored ::
  "os \<Rightarrow> string list \<Rightarrow> string list \<Rightarrow> string \<Rightarrow> nat \<Rightarrow> nat \<Rightarrow> nat \<Rightarrow> nat \<Rightarrow> shell \<Rightarrow> shell" where
  "execute_stored w path words program0 number_arguments input_r output_r pipe_count sh0 =
     (let sh = store_command w words sh0 in
      if halted sh \<noteq> None then sh
      else
        (case (if program0 = ''<'' then word_at words 2 else Some program0) of
           None \<Rightarrow> halt_with Undefined sh
         | Some program \<Rightarrow>
             if program = ''exit'' then do_exit words sh
             else
               (case check_glob w words of
                  Undef \<Rightarrow> halt_with Undefined sh
                | Fail es \<Rightarrow> emit es sh
                | Ok new_word \<Rightarrow>
                    (let words1 =
                       (case new_word of
                          None \<Rightarrow> words
                        | Some line \<Rightarrow> tokenize line WORD_SEPARATORS SPECIAL_CHARS)
                     in
                       if program = ''pwd'' then
                         (if is_redirected input_r output_r pipe_count
                          then emit [builtin_redirection_message program] sh
                          else if number_arguments = 1 then pwd w sh
                          else emit [Stderr (''pwd: too many arguments'' @ newline)] sh)
                       else if program = ''cd'' then
                         (if is_redirected input_r output_r pipe_count
                          then emit [builtin_redirection_message program] sh
                          else if number_arguments \<le> 2 then cd w words1 sh
                          else emit [Stderr (''cd: too many arguments'' @ newline)] sh)
                       else if program = ''history'' then
                         (if is_redirected input_r output_r pipe_count
                          then emit [builtin_redirection_message program] sh
                          else
                            (case history_check_arg DEFAULT_HISTORY_SHOWN number_arguments words1 of
                               Undef \<Rightarrow> halt_with Undefined sh
                             | Fail es \<Rightarrow> emit es sh
                             | Ok print_num \<Rightarrow> print_history w print_num sh))
                       else
                         run_external w path words1 program number_arguments
                           input_r output_r pipe_count sh))))"

text \<open>
  \<^verbatim>\<open>execute_command\<close>. When \<^verbatim>\<open>load_command\<close> returns NULL the source passes the NULL
  to \<^verbatim>\<open>printf("%s")\<close> before it tests it; the C library of the platform prints
  \<open>(null)\<close> then. When \<^verbatim>\<open>load_command\<close> returns a row, the pointer addresses an array
  that no longer exists: \<^verbatim>\<open>printf\<close> reads through it, and \<^verbatim>\<open>tokenize\<close> reads through it
  again after \<^verbatim>\<open>printf\<close> has used the same stack. What they find there is not defined,
  and the code after it (lines 195 to 215: the words of the recalled line, their
  validation, and from there \<^verbatim>\<open>store_command\<close> on) is reached in no other way.
\<close>

definition execute_command :: "os \<Rightarrow> string list \<Rightarrow> string list \<Rightarrow> shell \<Rightarrow> shell" where
  "execute_command w words path sh =
     (case words of
        [] \<Rightarrow> sh
      | program # rest \<Rightarrow>
          (let number_arguments = length words in
           case redirection_check_arg number_arguments words of
             Inl e \<Rightarrow> emit [Stderr (syntax_message e)] sh
           | Inr (input_r, output_r, pipe_count) \<Rightarrow>
               if program = ''!'' then
                 (if is_redirected input_r output_r pipe_count
                  then emit [builtin_redirection_message program] sh
                  else
                    (case exclamation_check_arg (- 1) number_arguments words of
                       Undef \<Rightarrow> halt_with Undefined sh
                     | Fail es \<Rightarrow> emit es sh
                     | Ok command_num \<Rightarrow>
                         (case load_command w sh command_num of
                            Undef \<Rightarrow> halt_with Undefined sh
                          | Fail es \<Rightarrow> emit (es @ [Stdout ''(null)'']) sh
                          | Ok row \<Rightarrow> halt_with Undefined sh)))
               else
                 execute_stored w path words program number_arguments
                   input_r output_r pipe_count sh))"

subsection \<open>The main loop\<close>

definition DEFAULT_PATH :: string where
  "DEFAULT_PATH = ''/bin:/usr/bin''"

text \<open>
  The loop of \<^verbatim>\<open>main\<close> over the bytes of standard input, for a shell that is not
  interactive (no prompt): it ends when \<^verbatim>\<open>fgets\<close> returns NULL, and \<^verbatim>\<open>main\<close> returns
  0 then. The next line is read only while the process is still there.
\<close>

function main_loop :: "os \<Rightarrow> string list \<Rightarrow> string \<Rightarrow> shell \<Rightarrow> shell" where
  "main_loop w path stdin sh =
     (case fgets MAX_LINE_CHARS stdin of
        None \<Rightarrow> halt_with (Exit 0) sh
      | Some (line, rest) \<Rightarrow>
          (let sh1 = execute_command w (tokenize line WORD_SEPARATORS SPECIAL_CHARS) path sh in
           if halted sh1 \<noteq> None then sh1 else main_loop w path rest sh1))"
  by pat_completeness auto
termination
  by (relation "measure (\<lambda>(w, path, stdin, sh). length stdin)") (auto dest: fgets_shorter)

declare main_loop.simps [simp del]

definition main :: "os \<Rightarrow> string \<Rightarrow> shell \<Rightarrow> shell" where
  "main w stdin sh =
     main_loop w
       (tokenize (case getenv_PATH w of None \<Rightarrow> DEFAULT_PATH | Some pathp \<Rightarrow> pathp) '':'' [])
       stdin sh"

subsection \<open>What an open file holds after the child has written\<close>

text \<open>
  The meaning of the flags of \<^verbatim>\<open>open\<close> in POSIX, for a child that writes \<open>out\<close> to
  the descriptor and nothing else: \<^verbatim>\<open>O_CREAT\<close> makes a missing file, \<^verbatim>\<open>O_TRUNC\<close>
  empties the file, \<^verbatim>\<open>O_APPEND\<close> puts every write at the end; without the two the
  bytes go over the old ones from offset 0 on.
\<close>

definition posix_open_write :: "open_flag list \<Rightarrow> string option \<Rightarrow> string \<Rightarrow> string option" where
  "posix_open_write flags old out =
     (case old of
        None \<Rightarrow> if O_CREAT \<in> set flags then Some out else None
      | Some content \<Rightarrow>
          if O_TRUNC \<in> set flags then Some out
          else if O_APPEND \<in> set flags then Some (content @ out)
          else Some (out @ drop (length out) content))"

subsection \<open>The tokenizer splits as specified\<close>

lemma takeWhile_conj_min:
  "length (takeWhile (\<lambda>c. P c \<and> Q c) s) = min (length (takeWhile P s)) (length (takeWhile Q s))"
  by (induction s) auto

lemma spec_scan_plain:
  "\<forall>c \<in> set p. c \<notin> set separators \<and> c \<notin> set special_chars \<Longrightarrow>
   spec_scan separators special_chars cur (p @ r) = spec_scan separators special_chars (cur @ p) r"
  by (induction p arbitrary: cur) auto

lemma spec_scan_seps:
  "\<forall>c \<in> set p. c \<in> set separators \<Longrightarrow>
   spec_scan separators special_chars [] (p @ r) = spec_scan separators special_chars [] r"
  by (induction p) (auto simp: flush_def)

lemma token_length_special:
  "c \<notin> set separators \<Longrightarrow> c \<in> set special_chars \<Longrightarrow>
   token_length (c # cs) separators special_chars = 1"
  by (simp add: token_length_def strcspn_def Let_def)

lemma token_length_plain:
  assumes "c \<notin> set separators" and "c \<notin> set special_chars"
  shows "token_length (c # cs) separators special_chars =
     length (takeWhile (\<lambda>c. c \<notin> set separators \<and> c \<notin> set special_chars) (c # cs))"
proof -
  have "strcspn (c # cs) special_chars \<noteq> 0" using assms by (simp add: strcspn_def)
  then have "token_length (c # cs) separators special_chars =
      min (strcspn (c # cs) separators) (strcspn (c # cs) special_chars)"
    by (simp add: token_length_def Let_def min_def)
  then show ?thesis
    unfolding strcspn_def by (simp only: takeWhile_conj_min)
qed

lemma spec_scan_end_of_run:
  assumes "cur \<noteq> []"
    and "r = [] \<or> hd r \<in> set separators \<or> hd r \<in> set special_chars"
  shows "spec_scan separators special_chars cur r = cur # spec_scan separators special_chars [] r"
  using assms by (cases r) (auto simp: flush_def)

lemma tokenize_refines: "tokenize s separators special_chars = spec_scan separators special_chars [] s"
proof (induction s separators special_chars rule: tokenize.induct)
  case (1 s separators special_chars)
  let ?sep = "\<lambda>c. c \<in> set separators"
  let ?s1 = "drop (strspn s separators) s"
  have s1: "?s1 = dropWhile ?sep s" by (simp add: strspn_def dropWhile_eq_drop)
  have split: "s = takeWhile ?sep s @ ?s1" by (simp add: s1)
  have skip: "spec_scan separators special_chars [] s = spec_scan separators special_chars [] ?s1"
    using spec_scan_seps[of "takeWhile ?sep s" separators special_chars ?s1] split
    by (metis (mono_tags, lifting) set_takeWhileD)
  show ?case
  proof (cases "s = []")
    case True
    then show ?thesis by (simp add: tokenize.simps flush_def)
  next
    case False
    show ?thesis
    proof (cases "?s1 = []")
      case True
      with False skip show ?thesis by (simp add: tokenize.simps[of s] flush_def)
    next
      case ne: False
      let ?len = "token_length ?s1 separators special_chars"
      have IH: "tokenize (drop ?len ?s1) separators special_chars = spec_scan separators special_chars [] (drop ?len ?s1)"
        using 1[OF False refl ne refl] .
      have tk: "tokenize s separators special_chars = take ?len ?s1 # tokenize (drop ?len ?s1) separators special_chars"
        using False ne by (simp add: tokenize.simps[of s] Let_def)
      obtain c cs where ccs: "?s1 = c # cs" using ne by (cases ?s1) auto
      have cns: "c \<notin> set separators" using hd_drop_strspn[OF ne] ccs by simp
      show ?thesis
      proof (cases "c \<in> set special_chars")
        case True
        have "?len = 1" using token_length_special[OF cns True] ccs by simp
        then show ?thesis using tk IH skip ccs cns True by (simp add: flush_def)
      next
        case False
        let ?plain = "\<lambda>c. c \<notin> set separators \<and> c \<notin> set special_chars"
        have len: "?len = length (takeWhile ?plain ?s1)"
          using token_length_plain[OF cns False] ccs by simp
        have tkp: "take ?len ?s1 = takeWhile ?plain ?s1" by (metis len takeWhile_eq_take)
        have drp: "drop ?len ?s1 = dropWhile ?plain ?s1" by (metis len dropWhile_eq_drop)
        have pne: "takeWhile ?plain ?s1 \<noteq> []" using ccs cns False by simp
        have "spec_scan separators special_chars [] ?s1 = spec_scan separators special_chars (takeWhile ?plain ?s1) (dropWhile ?plain ?s1)"
          using spec_scan_plain[of "takeWhile ?plain ?s1" separators special_chars "[]" "dropWhile ?plain ?s1"]
          by (metis (mono_tags, lifting) append_Nil set_takeWhileD takeWhile_dropWhile_id)
        also have "\<dots> = takeWhile ?plain ?s1 # spec_scan separators special_chars [] (dropWhile ?plain ?s1)"
        proof (rule spec_scan_end_of_run[OF pne])
          show "dropWhile ?plain ?s1 = [] \<or> hd (dropWhile ?plain ?s1) \<in> set separators
              \<or> hd (dropWhile ?plain ?s1) \<in> set special_chars"
            using hd_dropWhile[of ?plain ?s1] by blast
        qed
        finally show ?thesis using tk IH skip tkp drp by simp
      qed
    qed
  qed
qed

lemma concat_spec_scan:
  "concat (spec_scan separators special_chars cur s) = cur @ filter (\<lambda>c. c \<notin> set separators) s"
  by (induction s arbitrary: cur) (auto simp: flush_def)

lemma spec_scan_shapes:
  "list_all (\<lambda>c. c \<notin> set separators) cur \<Longrightarrow> list_all (\<lambda>c. c \<notin> set special_chars) cur \<Longrightarrow>
   list_all (token_shape separators special_chars) (spec_scan separators special_chars cur s)"
  by (induction s arbitrary: cur) (auto simp: flush_def token_shape_def)

text \<open>
  Claim C7. For every input line, \<open>tokenize\<close> with the shell's separators and special
  characters yields the maximal runs of characters that are neither separators nor
  special, and every special character (\<open>!\<close>, \<open><\<close>, \<open>>\<close>, \<open>|\<close>) as a token of
  its own, whatever stands next to it: it is the left-to-right scan \<open>spec_tokenize\<close>.
  The tokens, put together, are the line without its separators, and every token has
  the shape \<open>token_shape\<close>. In particular \<open>a>>b\<close> gives the four tokens \<open>a\<close>, \<open>>\<close>,
  \<open>>\<close>, \<open>b\<close>, and \<open>ls -l | wc\<close> gives \<open>ls\<close>, \<open>-l\<close>, \<open>|\<close>, \<open>wc\<close>.
\<close>

theorem C7_tokenize_isolates_specials:
  "tokenize line WORD_SEPARATORS SPECIAL_CHARS = spec_tokenize line WORD_SEPARATORS SPECIAL_CHARS
   \<and> concat (tokenize line WORD_SEPARATORS SPECIAL_CHARS) =
       filter (\<lambda>c. c \<notin> set WORD_SEPARATORS) line
   \<and> list_all (token_shape WORD_SEPARATORS SPECIAL_CHARS)
       (tokenize line WORD_SEPARATORS SPECIAL_CHARS)
   \<and> tokenize ''a>>b'' WORD_SEPARATORS SPECIAL_CHARS = [''a'', ''>'', ''>'', ''b'']
   \<and> tokenize ''ls -l | wc'' WORD_SEPARATORS SPECIAL_CHARS = [''ls'', ''-l'', ''|'', ''wc'']"
proof (intro conjI)
  show "tokenize line WORD_SEPARATORS SPECIAL_CHARS = spec_tokenize line WORD_SEPARATORS SPECIAL_CHARS"
    by (simp add: tokenize_refines spec_tokenize_def)
  show "concat (tokenize line WORD_SEPARATORS SPECIAL_CHARS) =
       filter (\<lambda>c. c \<notin> set WORD_SEPARATORS) line"
    by (simp add: tokenize_refines concat_spec_scan)
  show "list_all (token_shape WORD_SEPARATORS SPECIAL_CHARS)
       (tokenize line WORD_SEPARATORS SPECIAL_CHARS)"
    using spec_scan_shapes[of WORD_SEPARATORS "[]" SPECIAL_CHARS line]
    by (simp add: tokenize_refines)
  show "tokenize ''a>>b'' WORD_SEPARATORS SPECIAL_CHARS = [''a'', ''>'', ''>'', ''b'']"
    by code_simp
  show "tokenize ''ls -l | wc'' WORD_SEPARATORS SPECIAL_CHARS = [''ls'', ''-l'', ''|'', ''wc'']"
    by code_simp
qed

section \<open>The shell at work\<close>

subsection \<open>A small world for the examples\<close>

text \<open>
  \<^verbatim>\<open>HOME\<close> is \<^verbatim>\<open>/home/u\<close> and \<^verbatim>\<open>PATH\<close> is unset. The programs \<^verbatim>\<open>/bin/ls\<close>, \<^verbatim>\<open>/bin/echo\<close>
  and \<^verbatim>\<open>/usr/bin/wc\<close> exist, and so does an executable file \<^verbatim>\<open>foo\<close> in the current
  directory. The file \<^verbatim>\<open>out\<close> exists and may be read and written. The pattern \<^verbatim>\<open>*.c\<close>
  matches \<^verbatim>\<open>a.c\<close> and \<^verbatim>\<open>b.c\<close>; no other pattern matches. Every child exits with 0.
\<close>

definition demo_os :: os where
  "demo_os =
     \<lparr>getenv_HOME = Some ''/home/u'', getenv_PATH = None, history_append_ok = True,
      is_executable =
        (\<lambda>p. p = ''/bin/ls'' \<or> p = ''/bin/echo'' \<or> p = ''/usr/bin/wc'' \<or> p = ''foo''),
      stat_mode = (\<lambda>p. if p = ''out'' then Some (True, True) else None),
      glob = (\<lambda>p. if p = ''*.c'' then [''a.c'', ''b.c''] else [p]),
      child = (\<lambda>p a ws. Exited 0), chdir_ok = (\<lambda>d. True), getcwd = Some ''/'',
      pipe_ok = (\<lambda>k. True)\<rparr>"

definition demo_path :: "string list" where
  "demo_path = [''/bin'', ''/usr/bin'']"

text \<open>A shell that has done nothing yet, without a history file and with an empty one.\<close>

definition demo_shell :: shell where
  "demo_shell = \<lparr>hist_file = None, events = [], halted = None\<rparr>"

definition empty_history_shell :: shell where
  "empty_history_shell = \<lparr>hist_file = Some [], events = [], halted = None\<rparr>"

subsection \<open>Output redirection\<close>

text \<open>
  Claim C1 says that a single \<open>>\<close> binds the child's standard output to the file so that
  an existing file is truncated to empty, and that \<open>> >\<close> appends. The code opens the
  file of a single \<open>>\<close> with \<^verbatim>\<open>O_CREAT | O_WRONLY\<close> and without \<^verbatim>\<open>O_TRUNC\<close>, in
  \<^verbatim>\<open>in_out_redirection\<close> and for the last program of \<^verbatim>\<open>pipes\<close> alike. For the line
  \<^verbatim>\<open>echo hi > out\<close> and a file \<^verbatim>\<open>out\<close> that holds \<^verbatim>\<open>0123456789\<close>, the file holds
  \<^verbatim>\<open>hi\<close>, a newline and \<^verbatim>\<open>3456789\<close> afterwards: it is not truncated. The append form
  has \<^verbatim>\<open>O_APPEND\<close> and keeps the old bytes in front.
\<close>

theorem C1_single_gt_opens_without_truncation:
  "events (execute_command demo_os [''echo'', ''hi'', ''>'', ''out''] demo_path demo_shell) =
     [Spawn ''/bin/echo'' [AddOpen 1 ''out'' [O_CREAT, O_WRONLY] mode_0644] [''echo'', ''hi''],
      exit_status_line ''/bin/echo'' 0]
   \<and> events (execute_command demo_os [''ls'', ''|'', ''wc'', ''>'', ''out''] demo_path demo_shell) =
     [Spawn ''/bin/ls'' [AddDup2 (WriteEnd 0) 1] [''ls''],
      ClosePipe (WriteEnd 0),
      Spawn ''/usr/bin/wc'' [AddDup2 (ReadEnd 0) 0, AddOpen 1 ''out'' [O_CREAT, O_WRONLY] mode_0644]
        [''wc''],
      exit_status_line ''/usr/bin/wc'' 0]
   \<and> posix_open_write [O_CREAT, O_WRONLY] (Some ''0123456789'') (''hi'' @ newline)
       = Some (''hi'' @ newline @ ''3456789'')
   \<and> events (execute_command demo_os [''echo'', ''hi'', ''>'', ''>'', ''out''] demo_path demo_shell) =
     [Spawn ''/bin/echo'' [AddOpen 1 ''out'' [O_CREAT, O_WRONLY, O_APPEND] mode_0644]
        [''echo'', ''hi''],
      exit_status_line ''/bin/echo'' 0]
   \<and> posix_open_write [O_CREAT, O_WRONLY, O_APPEND] (Some ''0123456789'') (''hi'' @ newline)
       = Some (''0123456789hi'' @ newline)"
  by code_simp

subsection \<open>Builtins and redirection\<close>

text \<open>
  Claim C2 says that a builtin (\<^verbatim>\<open>pwd\<close>, \<^verbatim>\<open>cd\<close>, \<^verbatim>\<open>history\<close>, \<^verbatim>\<open>exit\<close>, \<^verbatim>\<open>!\<close>) in a line
  with a redirection or pipe token is answered by the message that redirection is not
  permitted for builtin commands. The branch for \<^verbatim>\<open>exit\<close> has no such test, while those
  for \<^verbatim>\<open>pwd\<close>, \<^verbatim>\<open>cd\<close>, \<^verbatim>\<open>history\<close> and \<^verbatim>\<open>!\<close> have it: the line \<^verbatim>\<open>exit > f\<close> passes the
  validator, prints \<^verbatim>\<open>exit: too many arguments\<close> and ends the shell with status 0;
  the line \<^verbatim>\<open>< f exit\<close> fails the assertion of \<^verbatim>\<open>do_exit\<close>; the line \<^verbatim>\<open>pwd > f\<close> gets
  the message.
\<close>

theorem C2_exit_with_redirection_is_not_refused:
  "tokenize ''exit > f'' WORD_SEPARATORS SPECIAL_CHARS = [''exit'', ''>'', ''f'']
   \<and> redirection_check_arg 3 [''exit'', ''>'', ''f''] = Inr (0, 1, 0)
   \<and> execute_command demo_os [''exit'', ''>'', ''f''] demo_path demo_shell =
       \<lparr>hist_file = Some (''exit > f'' @ newline),
        events = [Stderr (''exit: too many arguments'' @ newline)],
        halted = Some (Exit 0)\<rparr>
   \<and> execute_command demo_os [''<'', ''f'', ''exit''] demo_path demo_shell =
       \<lparr>hist_file = Some (''< f exit'' @ newline), events = [], halted = Some Abort\<rparr>
   \<and> execute_command demo_os [''pwd'', ''>'', ''f''] demo_path demo_shell =
       \<lparr>hist_file = Some (''pwd > f'' @ newline),
        events = [builtin_redirection_message ''pwd''],
        halted = None\<rparr>"
  by code_simp

subsection \<open>Recalling from an empty history\<close>

text \<open>
  Claim C4 says that recalling the last entry is an error when the log is empty, that a
  number within the log returns that entry and that a number beyond the last entry is
  refused. The code tests \<^verbatim>\<open>command_num > max_history\<close> for a number only; for the last
  entry it reads \<^verbatim>\<open>data[max_history]\<close> untested. With a history file that exists and is
  empty, \<^verbatim>\<open>max_history\<close> is \<open>-1\<close>: \<^verbatim>\<open>load_command\<close> reads \<^verbatim>\<open>data[-1]\<close> and prints no
  message, and the line \<^verbatim>\<open>!\<close> prints none either. A number beyond the log is refused,
  also in an empty log.
\<close>

theorem C4_last_of_empty_history_is_not_refused:
  "read_history [] = []
   \<and> load_command demo_os empty_history_shell (- 1) = Undef
   \<and> execute_command demo_os [''!''] demo_path empty_history_shell =
       \<lparr>hist_file = Some [], events = [], halted = Some Undefined\<rparr>
   \<and> load_command demo_os empty_history_shell 0 =
       Fail [Stderr (''!: invalid history reference'' @ newline)]"
  by code_simp

subsection \<open>Errors that end the shell\<close>

text \<open>
  Claim C5 says that no error of a line ends the interpreter, whose loop always goes on
  to the next line. \<^verbatim>\<open>do_exit\<close> calls \<^verbatim>\<open>exit\<close> also after it has printed
  \<^verbatim>\<open>exit: too many arguments\<close> or \<^verbatim>\<open>numeric argument required\<close>, although its caller
  expects it to return after an error. On the input of the two lines \<^verbatim>\<open>exit 1 2\<close> and
  \<^verbatim>\<open>pwd\<close> the shell prints the message of the first line and ends with status 0; the
  second line is never executed. The line \<^verbatim>\<open>exit x\<close> ends the shell in the same way.
\<close>

theorem C5_exit_argument_error_ends_the_shell:
  "main demo_os (''exit 1 2'' @ newline @ ''pwd'' @ newline) demo_shell =
     \<lparr>hist_file = Some (''exit 1 2'' @ newline),
      events = [Stderr (''exit: too many arguments'' @ newline)],
      halted = Some (Exit 0)\<rparr>
   \<and> main demo_os (''exit x'' @ newline @ ''pwd'' @ newline) demo_shell =
     \<lparr>hist_file = Some (''exit x'' @ newline),
      events = [Stderr (''exit: x: numeric argument required'' @ newline)],
      halted = Some (Exit 0)\<rparr>
   \<and> events (main demo_os (''pwd'' @ newline) demo_shell) =
     [Stdout (''current directory is '' @ [CHR 0x27] @ ''/'' @ [CHR 0x27] @ newline)]"
  by code_simp

subsection \<open>Expansion drops the other words\<close>

text \<open>
  Claim C6 says that expansion leaves the words unchanged when none has one of \<open>*\<close>,
  \<open>?\<close>, \<open>[\<close>, \<open>~\<close>, and that it otherwise replaces each such word in place by its matches
  while the other words keep their positions and values. \<^verbatim>\<open>check_glob\<close> builds the new
  line from \<^verbatim>\<open>words[0]\<close> and the matches only. For the words \<^verbatim>\<open>ls\<close>, \<^verbatim>\<open>-l\<close>, \<^verbatim>\<open>*.c\<close>,
  where \<^verbatim>\<open>*.c\<close> matches \<^verbatim>\<open>a.c\<close> and \<^verbatim>\<open>b.c\<close>, the new line is \<^verbatim>\<open>ls a.c b.c\<close> and the
  program is run without \<^verbatim>\<open>-l\<close>. Without such a character the words stay.
\<close>

theorem C6_expansion_drops_unflagged_words:
  "check_glob demo_os [''ls'', ''-l'', ''*.c''] = Ok (Some (''ls a.c b.c'' @ newline))
   \<and> tokenize (''ls a.c b.c'' @ newline) WORD_SEPARATORS SPECIAL_CHARS = [''ls'', ''a.c'', ''b.c'']
   \<and> events (execute_command demo_os [''ls'', ''-l'', ''*.c''] demo_path demo_shell) =
       [Spawn ''/bin/ls'' [] [''ls'', ''a.c'', ''b.c''], exit_status_line ''/bin/ls'' 0]
   \<and> check_glob demo_os [''ls'', ''-l'', ''x.c''] = Ok None
   \<and> events (execute_command demo_os [''ls'', ''-l'', ''x.c''] demo_path demo_shell) =
       [Spawn ''/bin/ls'' [] [''ls'', ''-l'', ''x.c''], exit_status_line ''/bin/ls'' 0]"
  by code_simp

subsection \<open>A name that no directory of the path has\<close>

text \<open>
  Claim C9 says that a name without \<open>/\<close> is looked up in the directories of the path
  in order, and that the command is not found, and nothing spawned, when no directory
  has it. After a search without a hit \<^verbatim>\<open>execute_command\<close> tests the bare name itself,
  which the system resolves in the current directory; \<^verbatim>\<open>get_programs\<close>, which has the
  same loop, reports a name without a hit as not found. With an executable file
  \<^verbatim>\<open>foo\<close> in the current directory and none in \<^verbatim>\<open>/bin\<close> or \<^verbatim>\<open>/usr/bin\<close>, the line \<^verbatim>\<open>foo\<close>
  spawns \<^verbatim>\<open>foo\<close>, while the line \<^verbatim>\<open>ls | foo\<close> answers that \<^verbatim>\<open>foo\<close> is not found.
\<close>

theorem C9_bare_name_falls_back_to_current_directory:
  "search_path demo_os demo_path ''foo'' = Ok None
   \<and> resolve demo_os demo_path ''foo'' = Ok ''foo''
   \<and> events (execute_command demo_os [''foo''] demo_path demo_shell) =
       [Spawn ''foo'' [] [''foo''], exit_status_line ''foo'' 0]
   \<and> events (execute_command demo_os [''ls'', ''|'', ''foo''] demo_path demo_shell) =
       [command_not_found ''foo'']
   \<and> events (execute_command demo_os [''bar''] demo_path demo_shell) =
       [command_not_found ''bar'']"
  by code_simp

subsection \<open>The validator accepts the three tokens in their places only\<close>

lemma check_output_fields [simp]:
  "cs_input_err (check_output i count words st) = cs_input_err st"
  "cs_pipe_err (check_output i count words st) = cs_pipe_err st"
  by (simp_all add: check_output_def Let_def)

lemma check_pipe_fields [simp]:
  "cs_input_err (check_pipe i count words st) = cs_input_err st"
  "cs_output_err (check_pipe i count words st) = cs_output_err st"
  by (simp_all add: check_pipe_def Let_def)

lemma check_output_err:
  "i < count \<Longrightarrow>
   (cs_output_err (check_output i count words st) = 0) =
   (cs_output_err st = 0 \<and> output_position_ok count words i)"
  by (auto simp: check_output_def output_position_ok_def Let_def)

lemma check_pipe_err:
  "i < count \<Longrightarrow> words ! i = ''|'' \<Longrightarrow>
   (cs_pipe_err (check_pipe i count words st) = 0) =
   (cs_pipe_err st = 0 \<and> pipe_position_ok count words i)"
  by (auto simp: check_pipe_def pipe_position_ok_def Let_def)

lemma check_loop_input_err:
  "(cs_input_err (check_loop i count words st) = 0) =
   (cs_input_err st = 0 \<and>
    list_all (\<lambda>j. words ! j = ''<'' \<longrightarrow> input_position_ok count j) [i ..< count])"
proof (induction i count words st rule: check_loop.induct)
  case (1 i count words st)
  show ?case
  proof (cases "i < count")
    case False
    then show ?thesis by (simp add: check_loop.simps[of i])
  next
    case True
    then show ?thesis
      using 1
      by (subst check_loop.simps) (auto simp: upt_conv_Cons input_position_ok_def)
  qed
qed

lemma check_loop_output_err:
  "list_all (\<lambda>j. words ! j = ''<'' \<longrightarrow> input_position_ok count j) [i ..< count] \<Longrightarrow>
   (cs_output_err (check_loop i count words st) = 0) =
   (cs_output_err st = 0 \<and>
    list_all (\<lambda>j. words ! j = ''>'' \<longrightarrow> output_position_ok count words j) [i ..< count])"
proof (induction i count words st rule: check_loop.induct)
  case (1 i count words st)
  show ?case
  proof (cases "i < count")
    case False
    then show ?thesis by (simp add: check_loop.simps[of i])
  next
    case True
    then show ?thesis
      using 1
      by (subst check_loop.simps)
        (auto simp: upt_conv_Cons input_position_ok_def check_output_err)
  qed
qed

lemma check_loop_pipe_err:
  "list_all (\<lambda>j. words ! j = ''<'' \<longrightarrow> input_position_ok count j) [i ..< count] \<Longrightarrow>
   (cs_pipe_err (check_loop i count words st) = 0) =
   (cs_pipe_err st = 0 \<and>
    list_all (\<lambda>j. words ! j = ''|'' \<longrightarrow> pipe_position_ok count words j) [i ..< count])"
proof (induction i count words st rule: check_loop.induct)
  case (1 i count words st)
  show ?case
  proof (cases "i < count")
    case False
    then show ?thesis by (simp add: check_loop.simps[of i])
  next
    case True
    then show ?thesis
      using 1
      by (subst check_loop.simps)
        (auto simp: upt_conv_Cons input_position_ok_def check_pipe_err)
  qed
qed

lemma misplaced_input_iff:
  "misplaced_input count words =
   (\<not> list_all (\<lambda>j. words ! j = ''<'' \<longrightarrow> input_position_ok count j) [0 ..< count])"
  by (auto simp: misplaced_input_def list_ex_iff list_all_iff)

lemma misplaced_output_iff:
  "misplaced_output count words =
   (\<not> list_all (\<lambda>j. words ! j = ''>'' \<longrightarrow> output_position_ok count words j) [0 ..< count])"
  by (auto simp: misplaced_output_def list_ex_iff list_all_iff)

lemma misplaced_pipe_iff:
  "misplaced_pipe count words =
   (\<not> list_all (\<lambda>j. words ! j = ''|'' \<longrightarrow> pipe_position_ok count words j) [0 ..< count])"
  by (auto simp: misplaced_pipe_def list_ex_iff list_all_iff)

lemma redirection_check_arg_cases:
  "redirection_check_arg count words =
     (if misplaced_input count words then Inl InvalidInput
      else if misplaced_output count words then Inl InvalidOutput
      else if misplaced_pipe count words then Inl InvalidPipe
      else Inr (cs_input (check_loop 0 count words check_init),
                cs_output (check_loop 0 count words check_init),
                cs_pipe_count (check_loop 0 count words check_init)))"
proof (cases "misplaced_input count words")
  case True
  then have "cs_input_err (check_loop 0 count words check_init) \<noteq> 0"
    by (simp add: misplaced_input_iff check_loop_input_err)
  with True show ?thesis by (simp add: redirection_check_arg_def Let_def)
next
  case False
  then have ok: "list_all (\<lambda>j. words ! j = ''<'' \<longrightarrow> input_position_ok count j) [0 ..< count]"
    by (simp add: misplaced_input_iff)
  then have i0: "cs_input_err (check_loop 0 count words check_init) = 0"
    by (simp add: check_loop_input_err check_init_def)
  have o: "(cs_output_err (check_loop 0 count words check_init) = 0) = (\<not> misplaced_output count words)"
    by (simp add: check_loop_output_err[OF ok] misplaced_output_iff check_init_def)
  have p: "(cs_pipe_err (check_loop 0 count words check_init) = 0) = (\<not> misplaced_pipe count words)"
    by (simp add: check_loop_pipe_err[OF ok] misplaced_pipe_iff check_init_def)
  from False i0 o p show ?thesis
    by (auto simp: redirection_check_arg_def Let_def)
qed

lemma execute_command_syntax_error:
  assumes "redirection_check_arg (length words) words = Inl e"
  shows "execute_command w words path sh = emit [Stderr (syntax_message e)] sh"
proof (cases words)
  case Nil
  with assms show ?thesis
    by (simp add: redirection_check_arg_def check_loop.simps[of 0 0] check_init_def)
next
  case (Cons program rest)
  with assms show ?thesis
    by (simp add: execute_command_def)
qed

text \<open>
  Claim C8. Over the \<open>count\<close> words of a line: when the validator accepts, every \<open><\<close>
  stands at position 0 and \<open>count \<ge> 3\<close>; every \<open>>\<close> stands at position \<open>count - 2\<close>, or at
  \<open>count - 3\<close> with another \<open>>\<close> right after it, and \<open>count \<ge> 3\<close>; every \<open>|\<close> stands strictly
  between the first and the last position and not right after another \<open>|\<close>. A
  misplaced \<open><\<close> gives the input error; otherwise a misplaced \<open>>\<close> gives the output
  error; otherwise a misplaced \<open>|\<close> gives the pipe error. On each of these errors
  \<^verbatim>\<open>execute_command\<close> prints the message and does nothing else: no process is spawned
  and nothing is recorded.
\<close>

theorem C8_validator_positions_and_errors:
  "((\<exists>counts. redirection_check_arg (length words) words = Inr counts) \<longrightarrow>
      (\<forall>i < length words.
         (words ! i = ''<'' \<longrightarrow> i = 0 \<and> 3 \<le> length words) \<and>
         (words ! i = ''>'' \<longrightarrow> 3 \<le> length words \<and>
            (i + 2 = length words \<or> (i + 3 = length words \<and> words ! (i + 1) = ''>''))) \<and>
         (words ! i = ''|'' \<longrightarrow> 0 < i \<and> i + 1 < length words \<and> words ! (i - 1) \<noteq> ''|'')))
   \<and> (misplaced_input (length words) words \<longrightarrow>
        redirection_check_arg (length words) words = Inl InvalidInput)
   \<and> (\<not> misplaced_input (length words) words \<and> misplaced_output (length words) words \<longrightarrow>
        redirection_check_arg (length words) words = Inl InvalidOutput)
   \<and> (\<not> misplaced_input (length words) words \<and> \<not> misplaced_output (length words) words
        \<and> misplaced_pipe (length words) words \<longrightarrow>
        redirection_check_arg (length words) words = Inl InvalidPipe)
   \<and> (\<forall>e. redirection_check_arg (length words) words = Inl e \<longrightarrow>
        execute_command w words path sh = emit [Stderr (syntax_message e)] sh)"
proof (intro conjI impI allI)
  fix i
  assume acc: "\<exists>counts. redirection_check_arg (length words) words = Inr counts"
    and i: "i < length words"
  from acc have no: "\<not> misplaced_input (length words) words"
      "\<not> misplaced_output (length words) words" "\<not> misplaced_pipe (length words) words"
    by (auto simp: redirection_check_arg_cases split: if_splits)
  { assume "words ! i = ''<''"
    with no(1) i have "input_position_ok (length words) i"
      by (auto simp: misplaced_input_def list_ex_iff)
    then show "i = 0" and "3 \<le> length words" by (simp_all add: input_position_ok_def) }
  { assume "words ! i = ''>''"
    with no(2) i have "output_position_ok (length words) words i"
      by (auto simp: misplaced_output_def list_ex_iff)
    then show "3 \<le> length words"
      and "i + 2 = length words \<or> (i + 3 = length words \<and> words ! (i + 1) = ''>'')"
      by (simp_all add: output_position_ok_def) }
  { assume "words ! i = ''|''"
    with no(3) i have "pipe_position_ok (length words) words i"
      by (auto simp: misplaced_pipe_def list_ex_iff)
    then show "0 < i" and "i + 1 < length words" and "words ! (i - 1) \<noteq> ''|''"
      by (simp_all add: pipe_position_ok_def) }
next
  assume "misplaced_input (length words) words"
  then show "redirection_check_arg (length words) words = Inl InvalidInput"
    by (simp add: redirection_check_arg_cases)
next
  assume "\<not> misplaced_input (length words) words \<and> misplaced_output (length words) words"
  then show "redirection_check_arg (length words) words = Inl InvalidOutput"
    by (simp add: redirection_check_arg_cases)
next
  assume "\<not> misplaced_input (length words) words \<and> \<not> misplaced_output (length words) words
        \<and> misplaced_pipe (length words) words"
  then show "redirection_check_arg (length words) words = Inl InvalidPipe"
    by (simp add: redirection_check_arg_cases)
next
  fix e
  assume "redirection_check_arg (length words) words = Inl e"
  then show "execute_command w words path sh = emit [Stderr (syntax_message e)] sh"
    by (rule execute_command_syntax_error)
qed

theorem C8_validator_witness:
  "redirection_check_arg (length [''a'', ''b'', ''>'', ''>'', ''out''])
       [''a'', ''b'', ''>'', ''>'', ''out''] = Inr (0, 2, 0)
   \<and> [''a'', ''b'', ''>'', ''>'', ''out''] ! (2 + 1) = ''>''
   \<and> redirection_check_arg (length [''a'', ''<'', ''b'']) [''a'', ''<'', ''b''] = Inl InvalidInput
   \<and> redirection_check_arg (length [''>'', ''a'', ''b'']) [''>'', ''a'', ''b''] = Inl InvalidOutput
   \<and> redirection_check_arg (length [''a'', ''|'', ''|'', ''b'']) [''a'', ''|'', ''|'', ''b'']
       = Inl InvalidPipe
   \<and> execute_command demo_os [''a'', ''|'', ''|'', ''b''] demo_path demo_shell =
       emit [Stderr (syntax_message InvalidPipe)] demo_shell"
proof -
  let ?append = "[''a'', ''b'', ''>'', ''>'', ''out'']"
  let ?pipes = "[''a'', ''|'', ''|'', ''b'']"
  have acc: "redirection_check_arg (length ?append) ?append = Inr (0, 2, 0)"
    by code_simp
  then have ex: "\<exists>counts. redirection_check_arg (length ?append) ?append = Inr counts"
    by blast
  have at2: "?append ! 2 = ''>''" and in_range: "(2::nat) < length ?append"
    by simp_all
  from C8_validator_positions_and_errors[of ?append demo_os demo_path demo_shell] ex in_range at2
  have pair: "?append ! (2 + 1) = ''>''"
    by fastforce
  have "misplaced_input (length [''a'', ''<'', ''b'']) [''a'', ''<'', ''b'']"
    by code_simp
  with C8_validator_positions_and_errors[of "[''a'', ''<'', ''b'']" demo_os demo_path demo_shell]
  have inp: "redirection_check_arg (length [''a'', ''<'', ''b'']) [''a'', ''<'', ''b''] = Inl InvalidInput"
    by blast
  have "\<not> misplaced_input (length [''>'', ''a'', ''b'']) [''>'', ''a'', ''b'']
      \<and> misplaced_output (length [''>'', ''a'', ''b'']) [''>'', ''a'', ''b'']"
    by code_simp
  with C8_validator_positions_and_errors[of "[''>'', ''a'', ''b'']" demo_os demo_path demo_shell]
  have outp: "redirection_check_arg (length [''>'', ''a'', ''b'']) [''>'', ''a'', ''b''] = Inl InvalidOutput"
    by blast
  have "\<not> misplaced_input (length ?pipes) ?pipes \<and> \<not> misplaced_output (length ?pipes) ?pipes
      \<and> misplaced_pipe (length ?pipes) ?pipes"
    by code_simp
  with C8_validator_positions_and_errors[of ?pipes demo_os demo_path demo_shell]
  have pip: "redirection_check_arg (length ?pipes) ?pipes = Inl InvalidPipe"
    by blast
  with C8_validator_positions_and_errors[of ?pipes demo_os demo_path demo_shell]
  have run: "execute_command demo_os ?pipes demo_path demo_shell =
       emit [Stderr (syntax_message InvalidPipe)] demo_shell"
    by blast
  from acc pair inp outp pip run show ?thesis by blast
qed

subsection \<open>Rows of the history file\<close>

lemma strcspn_append_hit:
  "c \<in> set a \<Longrightarrow> strcspn (a @ b) [c] = strcspn a [c]"
  by (induction a) (auto simp: strcspn_def)

lemma strcspn_hit_less:
  "c \<in> set a \<Longrightarrow> strcspn a [c] < length a"
  by (induction a) (auto simp: strcspn_def)

lemma strcspn_no_hit:
  "c \<notin> set a \<Longrightarrow> strcspn (a @ c # b) [c] = length a"
  by (induction a) (auto simp: strcspn_def)

lemma fgets_append:
  assumes ne: "a \<noteq> []" and nl: "last a = CHR 0x0A" and f: "fgets n a = Some (l, r)"
  shows "fgets n (a @ b) = Some (l, r @ b) \<and> (r = [] \<or> last r = CHR 0x0A)"
proof -
  have hit: "CHR 0x0A \<in> set a" using ne nl last_in_set by metis
  let ?k = "strcspn a newline"
  have k: "?k < length a" using strcspn_hit_less[OF hit] by (simp add: newline_def)
  have kab: "strcspn (a @ b) newline = ?k"
    using strcspn_append_hit[OF hit] by (simp add: newline_def)
  let ?len = "min (n - 1) (?k + 1)"
  have len: "?len \<le> length a" using k by simp
  from f ne k have l: "l = take ?len a" and r: "r = drop ?len a"
    by (auto simp: fgets_def Let_def)
  have "fgets n (a @ b) = Some (take ?len (a @ b), drop ?len (a @ b))"
    using ne k kab by (simp add: fgets_def Let_def)
  then have 1: "fgets n (a @ b) = Some (l, r @ b)"
    using len l r by simp
  have 2: "r = [] \<or> last r = CHR 0x0A"
  proof (cases "?len < length a")
    case True
    then have "last r = last a" unfolding r by (rule last_drop)
    with nl show ?thesis by simp
  next
    case False
    then have "length a \<le> ?len" by linarith
    then have "r = []" unfolding r by (rule drop_all)
    then show ?thesis by simp
  qed
  from 1 2 show ?thesis by blast
qed

lemma read_history_append:
  "a = [] \<or> last a = CHR 0x0A \<Longrightarrow> read_history (a @ b) = read_history a @ read_history b"
proof (induction a rule: read_history.induct)
  case (1 stream)
  show ?case
  proof (cases "stream = []")
    case True
    then show ?thesis by (simp add: read_history.simps[of "[]"] fgets_def)
  next
    case False
    then obtain l r where f: "fgets MAX_LINE_CHARS stream = Some (l, r)"
      by (auto simp: fgets_def Let_def)
    from False 1(2) have nl: "last stream = CHR 0x0A" by simp
    from fgets_append[OF False nl f, of b]
    have fa: "fgets MAX_LINE_CHARS (stream @ b) = Some (l, r @ b)" and rr: "r = [] \<or> last r = CHR 0x0A"
      by simp_all
    have "read_history (r @ b) = read_history r @ read_history b"
      using 1(1)[OF f refl rr] .
    then show ?thesis
      using f fa by (simp add: read_history.simps[of stream] read_history.simps[of "stream @ b"])
  qed
qed

lemma read_history_one_line:
  assumes "CHR 0x0A \<notin> set l" and "length l + 1 < MAX_LINE_CHARS"
  shows "read_history (l @ newline) = [l @ newline]"
proof -
  have k: "strcspn (l @ newline) newline = length l"
    using strcspn_no_hit[OF assms(1), of "[]"] by (simp add: newline_def)
  have "fgets MAX_LINE_CHARS (l @ newline) = Some (l @ newline, [])"
    using assms(2) k by (simp add: fgets_def Let_def newline_def)
  then show ?thesis
    by (simp add: read_history.simps[of "l @ newline"] read_history.simps[of "[]"] fgets_def)
qed

lemma read_history_store:
  assumes "old = [] \<or> last old = CHR 0x0A" and "CHR 0x0A \<notin> set l" and "length l + 1 < MAX_LINE_CHARS"
  shows "read_history (old @ l @ newline) = read_history old @ [l @ newline]"
  using read_history_append[OF assms(1)] read_history_one_line[OF assms(2,3)] by simp

subsection \<open>The history listing\<close>

text \<open>
  A shell whose history file holds the two lines \<^verbatim>\<open>ls\<close> and \<^verbatim>\<open>pwd\<close>, and one whose
  history file holds 1000 lines \<^verbatim>\<open>ls\<close>.
\<close>

definition history_shell :: shell where
  "history_shell = \<lparr>hist_file = Some (''ls'' @ newline @ ''pwd'' @ newline), events = [], halted = None\<rparr>"

definition full_history_shell :: shell where
  "full_history_shell =
     \<lparr>hist_file = Some (concat (replicate 1000 (''ls'' @ newline))), events = [], halted = None\<rparr>"

lemma store_command_appends:
  assumes "history_path w = Some p" and "history_append_ok w"
  shows "store_command w words sh =
     sh\<lparr>hist_file := Some ((case hist_file sh of None \<Rightarrow> [] | Some old \<Rightarrow> old) @ join_words words @ newline)\<rparr>"
  using assms by (simp add: store_command_def)

lemma check_loop_plain:
  "list_all (\<lambda>j. words ! j \<noteq> ''<'' \<and> words ! j \<noteq> ''>'' \<and> words ! j \<noteq> ''|'') [i ..< count] \<Longrightarrow>
   check_loop i count words st = st"
proof (induction i count words st rule: check_loop.induct)
  case (1 i count words st)
  show ?case
  proof (cases "i < count")
    case False
    then show ?thesis by (simp add: check_loop.simps[of i])
  next
    case True
    then show ?thesis
      using 1 by (subst check_loop.simps) (auto simp: upt_conv_Cons)
  qed
qed

lemma validate_plain_words:
  assumes "\<forall>x \<in> set words. x \<noteq> ''<'' \<and> x \<noteq> ''>'' \<and> x \<noteq> ''|''"
  shows "redirection_check_arg (length words) words = Inr (0, 0, 0)"
proof -
  from assms
  have "list_all (\<lambda>j. words ! j \<noteq> ''<'' \<and> words ! j \<noteq> ''>'' \<and> words ! j \<noteq> ''|'') [0 ..< length words]"
    by (simp add: list_all_iff)
  then have "check_loop 0 (length words) words check_init = check_init"
    by (rule check_loop_plain)
  then show ?thesis
    by (simp add: redirection_check_arg_def check_init_def)
qed

lemma no_glob_history: "check_glob w [''history''] = Ok None"
  by (simp add: check_glob_def glob_word_num_def is_glob_char_def)

lemma execute_history_call:
  assumes "history_path w = Some p" and "history_append_ok w" and "halted sh = None"
  shows "execute_command w [''history''] path sh =
     print_history w DEFAULT_HISTORY_SHOWN (store_command w [''history''] sh)"
proof -
  have v: "redirection_check_arg (length [''history'']) [''history''] = Inr (0, 0, 0)"
    by (rule validate_plain_words) simp
  have g: "check_glob w [''history''] = Ok None"
    by (rule no_glob_history)
  have h: "history_check_arg DEFAULT_HISTORY_SHOWN (length [''history'']) [''history'']
      = Ok DEFAULT_HISTORY_SHOWN"
    by (simp add: history_check_arg_def)
  have hl: "halted (store_command w [''history''] sh) = None"
    using assms by (simp add: store_command_appends)
  have "execute_command w [''history''] path sh =
      execute_stored w path [''history''] ''history'' (length [''history'']) 0 0 0 sh"
    using v by (simp add: execute_command_def)
  also have "\<dots> = print_history w DEFAULT_HISTORY_SHOWN (store_command w [''history''] sh)"
    using hl g h by (simp add: execute_stored_def Let_def is_redirected_def)
  finally show ?thesis .
qed

lemma concat_replicate_Suc_end:
  "concat (replicate (Suc k) r) = concat (replicate k r) @ r"
  by (induction k) simp_all

lemma last_concat_replicate:
  assumes "0 < n"
  shows "last (concat (replicate n (l @ newline))) = CHR 0x0A"
proof -
  from assms obtain k where n: "n = Suc k" by (cases n) auto
  have "concat (replicate n (l @ newline)) = (concat (replicate k (l @ newline)) @ l) @ newline"
    unfolding n by (simp only: concat_replicate_Suc_end append_assoc)
  then show ?thesis by (simp add: newline_def)
qed

lemma read_history_replicate:
  assumes "CHR 0x0A \<notin> set l" and "length l + 1 < MAX_LINE_CHARS"
  shows "read_history (concat (replicate n (l @ newline))) = replicate n (l @ newline)"
proof (induction n)
  case 0
  show ?case by (simp add: read_history.simps[of "[]"] fgets_def)
next
  case (Suc n)
  have "last (l @ newline) = CHR 0x0A" by (simp add: newline_def)
  then have "read_history ((l @ newline) @ concat (replicate n (l @ newline))) =
      read_history (l @ newline) @ read_history (concat (replicate n (l @ newline)))"
    by (intro read_history_append) simp
  also have "\<dots> = [l @ newline] @ replicate n (l @ newline)"
    by (simp only: read_history_one_line[OF assms] Suc)
  finally show ?case by simp
qed

text \<open>
  Claim C10 says that every invocation of \<^verbatim>\<open>history\<close> with count \<open>n\<close> (10 by default)
  lists at most \<open>n\<close> entries, the oldest first, each with its 0-based number, and
  never the last entry of the log, which is the line of the invocation itself. The
  loop of \<^verbatim>\<open>print_history\<close> that reads the file into \<^verbatim>\<open>data\<close> has no bound on the row
  index, and \<^verbatim>\<open>data\<close> has \<open>HISTORY_ROWS\<close> rows. With a log of 1000 lines \<^verbatim>\<open>ls\<close>, the
  line \<^verbatim>\<open>history\<close> is stored as row 1000 of the file, \<^verbatim>\<open>fgets\<close> is made to write it
  past the end of \<^verbatim>\<open>data\<close>, and no listing is defined: nothing of what the claim says
  is printed. With the log of the two lines \<^verbatim>\<open>ls\<close> and \<^verbatim>\<open>pwd\<close> the listing is
  \<^verbatim>\<open>0: ls\<close> and \<^verbatim>\<open>1: pwd\<close>, without the line \<^verbatim>\<open>history\<close>, as the claim says.
\<close>

theorem C10_history_on_a_full_log_overflows:
  "read_history (concat (replicate 1000 (''ls'' @ newline)) @ ''history'' @ newline) =
     replicate 1000 (''ls'' @ newline) @ [''history'' @ newline]
   \<and> hist_file (store_command demo_os [''history''] full_history_shell) =
     Some (concat (replicate 1000 (''ls'' @ newline)) @ ''history'' @ newline)
   \<and> execute_command demo_os [''history''] demo_path full_history_shell =
     halt_with Undefined (store_command demo_os [''history''] full_history_shell)
   \<and> events (execute_command demo_os [''history''] demo_path full_history_shell) = []
   \<and> events (execute_command demo_os [''history''] demo_path history_shell) =
     [Stdout (''0: ls'' @ newline), Stdout (''1: pwd'' @ newline)]"
proof -
  let ?full = "concat (replicate 1000 (''ls'' @ newline))"
  let ?stream = "?full @ ''history'' @ newline"
  let ?sh1 = "store_command demo_os [''history''] full_history_shell"
  have ls: "CHR 0x0A \<notin> set ''ls''" "length ''ls'' + 1 < MAX_LINE_CHARS"
    by (simp_all add: MAX_LINE_CHARS_def)
  have hi: "CHR 0x0A \<notin> set ''history''" "length ''history'' + 1 < MAX_LINE_CHARS"
    by (simp_all add: MAX_LINE_CHARS_def)
  have "last ?full = CHR 0x0A" by (rule last_concat_replicate) simp
  then have "read_history ?stream = read_history ?full @ [''history'' @ newline]"
    by (intro read_history_store hi) blast
  then have rows: "read_history ?stream = replicate 1000 (''ls'' @ newline) @ [''history'' @ newline]"
    by (simp only: read_history_replicate[OF ls])
  have hp: "history_path demo_os = Some ''/home/u/.msh_history''"
    and ap: "history_append_ok demo_os"
    by code_simp+
  have run: "halted full_history_shell = None"
    by (simp add: full_history_shell_def)
  have st: "?sh1 = full_history_shell\<lparr>hist_file := Some ?stream\<rparr>"
    using store_command_appends[OF hp ap, of "[''history'']" full_history_shell]
    by (simp add: full_history_shell_def)
  then have hf: "hist_file ?sh1 = Some ?stream" by (simp)
  have "length (read_history ?stream) = 1001"
    by (simp only: rows) (simp)
  then have over: "HISTORY_ROWS < length (read_history ?stream)"
    by (simp only: HISTORY_ROWS_def)
  have "print_history demo_os DEFAULT_HISTORY_SHOWN ?sh1 = halt_with Undefined ?sh1"
    unfolding print_history_def Let_def
    by (simp only: hp hf option.case over if_True)
  then have ex: "execute_command demo_os [''history''] demo_path full_history_shell =
      halt_with Undefined ?sh1"
    using execute_history_call[OF hp ap run] by (simp only:)
  have ev: "events (execute_command demo_os [''history''] demo_path full_history_shell) = []"
    unfolding ex st by (simp add: halt_with_def full_history_shell_def)
  have young: "events (execute_command demo_os [''history''] demo_path history_shell) =
      [Stdout (''0: ls'' @ newline), Stdout (''1: pwd'' @ newline)]"
    by code_simp
  from rows hf ex ev young show ?thesis by blast
qed

subsection \<open>What is written to the history file\<close>

text \<open>Only \<^verbatim>\<open>store_command\<close> writes the file; nothing that runs after it touches it.\<close>

lemma hist_file_emit [simp]: "hist_file (emit es sh) = hist_file sh"
  by (simp add: emit_def)

lemma hist_file_halt_with [simp]: "hist_file (halt_with h sh) = hist_file sh"
  by (simp add: halt_with_def)

lemma hist_file_do_exit [simp]: "hist_file (do_exit words sh) = hist_file sh"
  by (simp add: do_exit_def Let_def split: option.splits prod.splits)

lemma hist_file_pwd [simp]: "hist_file (pwd w sh) = hist_file sh"
  by (simp add: pwd_def split: option.splits)

lemma hist_file_cd [simp]: "hist_file (cd w words sh) = hist_file sh"
  by (simp add: cd_def split: option.splits)

lemma hist_file_print_history [simp]: "hist_file (print_history w num sh) = hist_file sh"
  by (simp add: print_history_def Let_def split: option.splits)

lemma hist_file_run_program [simp]: "hist_file (run_program w pathname words sh) = hist_file sh"
  by (simp add: run_program_def Let_def split: child_result.splits)

lemma hist_file_in_out_redirection [simp]:
  "hist_file (in_out_redirection w max_n program input output words sh) = hist_file sh"
  by (simp add: in_out_redirection_def Let_def split: res.splits child_result.splits)

lemma hist_file_pipes_loop [simp]:
  "hist_file (pipes_loop w max_n programs inp outp pipe_count words i sh) = hist_file sh"
proof (induction "pipe_count + 1 - i" arbitrary: i sh)
  case 0
  then show ?case by (simp add: pipes_loop.simps[of _ _ _ _ _ _ _ i])
next
  case (Suc k)
  then have next_stage: "\<And>j sh'. j = Suc i \<Longrightarrow>
      hist_file (pipes_loop w max_n programs inp outp pipe_count words j sh') = hist_file sh'"
    by simp
  show ?case
    by (subst pipes_loop.simps)
      (simp add: Let_def next_stage split: res.splits option.splits child_result.splits)
qed

lemma hist_file_pipes [simp]:
  "hist_file (pipes w max_n programs input output pipe_count words sh) = hist_file sh"
  by (simp add: pipes_def split: res.splits)

lemma hist_file_run_external [simp]:
  "hist_file (run_external w path words program number_arguments input_r output_r pipe_count sh)
     = hist_file sh"
  by (simp add: run_external_def split: res.splits)

lemma hist_file_execute_stored:
  "hist_file (execute_stored w path words program number_arguments input_r output_r pipe_count sh)
     = hist_file (store_command w words sh)"
  by (simp add: execute_stored_def Let_def split: res.splits option.splits)

text \<open>
  Claim C3 says that every non-empty line is recorded, also when its syntax validation
  fails. The code validates first and returns on an error, before \<^verbatim>\<open>store_command\<close>:
  the line \<^verbatim>\<open>| a\<close> has the two tokens \<open>|\<close> and \<open>a\<close>, is answered by the pipe error,
  and leaves the history file as it was (and does not create it when it is missing).
\<close>

theorem C3_syntax_error_line_is_not_recorded:
  "tokenize (''| a'' @ newline) WORD_SEPARATORS SPECIAL_CHARS = [''|'', ''a'']
   \<and> execute_command demo_os [''|'', ''a''] demo_path history_shell =
       emit [Stderr (syntax_message InvalidPipe)] history_shell
   \<and> hist_file (execute_command demo_os [''|'', ''a''] demo_path history_shell) =
       Some (''ls'' @ newline @ ''pwd'' @ newline)
   \<and> hist_file (main demo_os (''| a'' @ newline) demo_shell) = None"
  by code_simp

text \<open>
  Claim C3, as the code has it. An empty line changes nothing. A line that the
  validator rejects is not recorded. A non-empty line that passes the validator and
  does not start with \<open>!\<close> is recorded, whatever happens to it afterwards (a program
  that is not found, a failing child, a builtin that rejects its arguments): its
  words, joined by single spaces and followed by a newline, are appended to the
  history file, when \<^verbatim>\<open>HOME\<close> is set and the file can be opened for appending. The
  appended entry is one more row for the readers of the file, so it gets the next
  number, when the file ended in a newline and the entry fits one read of
  \<open>MAX_LINE_CHARS - 1\<close> bytes. Nothing is said of a line that starts with \<open>!\<close>: what it
  recalls is read through a pointer to an array that is gone.
\<close>

theorem C3_validated_line_is_recorded:
  "execute_command w [] path sh = sh
   \<and> (\<forall>e. redirection_check_arg (length words) words = Inl e \<longrightarrow>
        hist_file (execute_command w words path sh) = hist_file sh)
   \<and> (words \<noteq> [] \<and> hd words \<noteq> ''!''
        \<and> (\<exists>counts. redirection_check_arg (length words) words = Inr counts)
        \<and> history_path w = Some p \<and> history_append_ok w \<longrightarrow>
        hist_file (execute_command w words path sh) =
          Some ((case hist_file sh of None \<Rightarrow> [] | Some bytes \<Rightarrow> bytes) @ join_words words @ newline))
   \<and> ((old = [] \<or> last old = CHR 0x0A) \<and> CHR 0x0A \<notin> set (join_words words)
        \<and> length (join_words words) + 1 < MAX_LINE_CHARS \<longrightarrow>
        read_history (old @ join_words words @ newline) =
          read_history old @ [join_words words @ newline])"
proof (intro conjI impI allI)
  show "execute_command w [] path sh = sh"
    by (simp add: execute_command_def)
next
  fix e
  assume "redirection_check_arg (length words) words = Inl e"
  then show "hist_file (execute_command w words path sh) = hist_file sh"
    by (simp add: execute_command_syntax_error)
next
  assume a: "words \<noteq> [] \<and> hd words \<noteq> ''!''
        \<and> (\<exists>counts. redirection_check_arg (length words) words = Inr counts)
        \<and> history_path w = Some p \<and> history_append_ok w"
  then obtain program rest where ws: "words = program # rest" and np: "program \<noteq> ''!''"
    by (cases words) auto
  from a obtain counts where v: "redirection_check_arg (length words) words = Inr counts"
    by blast
  obtain input_r output_r pipe_count where c: "counts = (input_r, output_r, pipe_count)"
    by (cases counts) auto
  have "execute_command w words path sh =
      execute_stored w path words program (length words) input_r output_r pipe_count sh"
    using v np unfolding c ws by (simp add: execute_command_def)
  then have "hist_file (execute_command w words path sh) = hist_file (store_command w words sh)"
    by (simp add: hist_file_execute_stored)
  with a show "hist_file (execute_command w words path sh) =
      Some ((case hist_file sh of None \<Rightarrow> [] | Some bytes \<Rightarrow> bytes) @ join_words words @ newline)"
    by (simp add: store_command_appends)
next
  assume "(old = [] \<or> last old = CHR 0x0A) \<and> CHR 0x0A \<notin> set (join_words words)
        \<and> length (join_words words) + 1 < MAX_LINE_CHARS"
  then show "read_history (old @ join_words words @ newline) =
      read_history old @ [join_words words @ newline]"
    using read_history_store by blast
qed

theorem C3_recorded_witness:
  "hist_file (execute_command demo_os [''bar''] demo_path history_shell) =
     Some (''ls'' @ newline @ ''pwd'' @ newline @ ''bar'' @ newline)
   \<and> events (execute_command demo_os [''bar''] demo_path history_shell) = [command_not_found ''bar'']
   \<and> read_history ((''ls'' @ newline @ ''pwd'' @ newline) @ join_words [''bar''] @ newline) =
       read_history (''ls'' @ newline @ ''pwd'' @ newline) @ [join_words [''bar''] @ newline]
   \<and> hist_file (execute_command demo_os [''a'', ''|''] demo_path history_shell) =
     hist_file history_shell"
proof -
  let ?p = "''/home/u/.msh_history''"
  let ?old = "''ls'' @ newline @ ''pwd'' @ newline"
  let ?bar = "[''bar'']"
  let ?bad = "[''a'', ''|'']"
  have "?bar \<noteq> [] \<and> hd ?bar \<noteq> ''!''
        \<and> (\<exists>counts. redirection_check_arg (length ?bar) ?bar = Inr counts)
        \<and> history_path demo_os = Some ?p \<and> history_append_ok demo_os"
  proof -
    have "redirection_check_arg (length ?bar) ?bar = Inr (0, 0, 0)" by code_simp
    then have "\<exists>counts. redirection_check_arg (length ?bar) ?bar = Inr counts" by blast
    moreover have "?bar \<noteq> [] \<and> hd ?bar \<noteq> ''!''
        \<and> history_path demo_os = Some ?p \<and> history_append_ok demo_os"
      by code_simp
    ultimately show ?thesis by blast
  qed
  with C3_validated_line_is_recorded[where w = demo_os and words = ?bar and p = ?p
      and sh = history_shell and path = demo_path]
  have "hist_file (execute_command demo_os ?bar demo_path history_shell) =
      Some ((case hist_file history_shell of None \<Rightarrow> [] | Some bytes \<Rightarrow> bytes)
        @ join_words ?bar @ newline)"
    by blast
  moreover have "(case hist_file history_shell of None \<Rightarrow> [] | Some bytes \<Rightarrow> bytes)
        @ join_words ?bar @ newline = ''ls'' @ newline @ ''pwd'' @ newline @ ''bar'' @ newline"
    by code_simp
  ultimately have one: "hist_file (execute_command demo_os ?bar demo_path history_shell) =
      Some (''ls'' @ newline @ ''pwd'' @ newline @ ''bar'' @ newline)"
    by (simp only:)
  have two: "events (execute_command demo_os ?bar demo_path history_shell) = [command_not_found ''bar'']"
    by code_simp
  have "(?old = [] \<or> last ?old = CHR 0x0A) \<and> CHR 0x0A \<notin> set (join_words ?bar)
        \<and> length (join_words ?bar) + 1 < MAX_LINE_CHARS"
    by code_simp
  with C3_validated_line_is_recorded[where words = ?bar and old = ?old]
  have three: "read_history (?old @ join_words ?bar @ newline) =
      read_history ?old @ [join_words ?bar @ newline]"
    by blast
  have "redirection_check_arg (length ?bad) ?bad = Inl InvalidPipe"
    by code_simp
  with C3_validated_line_is_recorded[where w = demo_os and words = ?bad and sh = history_shell
      and path = demo_path]
  have five: "hist_file (execute_command demo_os ?bad demo_path history_shell) = hist_file history_shell"
    by blast
  from one two three five show ?thesis by blast
qed

end
